theory Spec2Isabelle
  imports Main "HOL-Library.AList"
begin

section \<open>JavaScript strings\<close>

text \<open>
  Strings are lists of 8-bit characters. The helpers below are the string operations of
  the JavaScript runtime that the bridge calls: truthiness of an optional string,
  \<^verbatim>\<open>split\<close>, \<open>join\<close>, \<^verbatim>\<open>startsWith\<close>, \<^verbatim>\<open>toUpperCase\<close> as it
  acts on ASCII text (pairing codes are hex digits) and the test
  \<^verbatim>\<open>isNaN(Number(s))\<close>, which follows the StringNumericLiteral grammar of
  ECMAScript for the characters below U+0100.

  \<^verbatim>\<open>toLowerCase\<close> is not modelled by a table: it is the Unicode lower-casing of the
  runtime, and the access check that calls it takes it as the parameter \<open>toLowerCase\<close>.
  \<open>ascii_lower\<close> is what the runtime's function does to a string of ASCII characters:
  the letters \<open>A\<close> to \<open>Z\<close> move 32 code points up, everything else stays.
\<close>

definition truthy :: "string option \<Rightarrow> bool" where
  "truthy s = (case s of None \<Rightarrow> False | Some v \<Rightarrow> v \<noteq> [])"


fun join_with :: "string \<Rightarrow> string list \<Rightarrow> string" where
  "join_with sep [] = []"
| "join_with sep [p] = p"
| "join_with sep (p # q # ps) = p @ sep @ join_with sep (q # ps)"


definition startsWith :: "string \<Rightarrow> string \<Rightarrow> bool" where
  "startsWith s p = (take (length p) s = p)"

definition upper_char :: "char \<Rightarrow> char" where
  "upper_char c =
     (case map_of (zip ''abcdefghijklmnopqrstuvwxyz'' ''ABCDEFGHIJKLMNOPQRSTUVWXYZ'') c of
        Some u \<Rightarrow> u | None \<Rightarrow> c)"

definition lower_char :: "char \<Rightarrow> char" where
  "lower_char c =
     (let n = (of_char c :: nat) in if 65 \<le> n \<and> n \<le> 90 then char_of (n + 32) else c)"

definition toUpperCase :: "string \<Rightarrow> string" where
  "toUpperCase s = map upper_char s"

definition ascii_lower :: "string \<Rightarrow> string" where
  "ascii_lower s = map lower_char s"

definition ascii :: "string \<Rightarrow> bool" where
  "ascii s = list_all (\<lambda>c. (of_char c :: nat) < 128) s"










section \<open>Core types\<close>

datatype exn = Error string | TypeError string | SqliteError string

record MCPServerConfig =
  mcp_name :: string
  mcp_command :: "string option"
  mcp_args :: "string list option"
  mcp_env :: "(string \<times> string) list option"
  mcp_type :: "string option"
  mcp_url :: "string option"

record AgentConfig =
  ac_id :: string
  ac_name :: string
  ac_workspace :: string
  ac_model :: "string option"
  ac_systemPrompt :: "string option"
  ac_maxTurns :: "nat option"
  ac_permissionMode :: "string option"
  ac_mcpServers :: "MCPServerConfig list option"
  ac_tools :: "string list option"
  ac_disallowedTools :: "string list option"

record BindingMatch =
  m_channel :: "string option"
  m_peer :: "string option"
  m_group :: "string option"

record AgentBinding =
  agentId :: string
  b_match :: "BindingMatch option"

record UserInfo =
  ui_id :: string
  ui_username :: "string option"
  ui_displayName :: "string option"
  ui_channel :: string

record IncomingMessage =
  msg_chatKey :: string
  msg_channel :: string
  msg_userId :: string
  msg_text :: string
  msg_userInfo :: UserInfo
  msg_isGroup :: bool
  msg_groupId :: "string option"

record BridgeConfig =
  agents_list :: "AgentConfig list"
  bindings :: "AgentBinding list"

section \<open>Router\<close>

record Router =
  r_agents :: "(string \<times> AgentConfig) list"
  r_bindings :: "AgentBinding list"
  r_defaultAgentId :: string

text \<open>
  The constructor fills the agent map in list order (a later agent with the same id
  replaces the earlier value) and picks the default agent id: the first binding without
  match criteria if its agentId is non-empty, else the first configured agent. Reading
  the id of the first agent of an empty list throws.
\<close>

definition Router_new :: "BridgeConfig \<Rightarrow> exn + Router" where
  "Router_new config =
     (let agents = foldl (\<lambda>m a. AList.update (ac_id a) a m) [] (agents_list config);
          bs = bindings config;
          defaultBinding = find (\<lambda>b. b_match b = None) bs;
          fromBinding = (case defaultBinding of None \<Rightarrow> None | Some b \<Rightarrow> Some (agentId b))
      in if truthy fromBinding
         then Inr \<lparr>r_agents = agents, r_bindings = bs, r_defaultAgentId = the fromBinding\<rparr>
         else (case agents_list config of
                 [] \<Rightarrow> Inl (TypeError ''Cannot read properties of undefined'')
               | a # _ \<Rightarrow>
                   Inr \<lparr>r_agents = agents, r_bindings = bs, r_defaultAgentId = ac_id a\<rparr>))"

definition getAgent :: "Router \<Rightarrow> string \<Rightarrow> AgentConfig option" where
  "getAgent r aid = map_of (r_agents r) aid"

definition getAllAgents :: "Router \<Rightarrow> AgentConfig list" where
  "getAllAgents r = map snd (r_agents r)"

definition matchesBinding ::
  "AgentBinding \<Rightarrow> string \<Rightarrow> string \<Rightarrow> string option \<Rightarrow> bool" where
  "matchesBinding binding channel peerId groupId =
     (case b_match binding of
        None \<Rightarrow> True
      | Some m \<Rightarrow>
          if truthy (m_channel m) \<and> m_channel m \<noteq> Some channel then False
          else if truthy (m_peer m) \<and> m_peer m \<noteq> Some peerId then False
          else if truthy (m_group m) \<and> m_group m \<noteq> groupId then False
          else True)"

fun scan_bindings ::
  "AgentBinding list \<Rightarrow> string \<Rightarrow> string \<Rightarrow> string option \<Rightarrow> string option" where
  "scan_bindings [] channel peerId groupId = None"
| "scan_bindings (b # bs) channel peerId groupId =
     (if matchesBinding b channel peerId groupId then Some (agentId b)
      else scan_bindings bs channel peerId groupId)"

definition findAgentId :: "Router \<Rightarrow> string \<Rightarrow> string \<Rightarrow> string option \<Rightarrow> string" where
  "findAgentId r channel peerId groupId =
     (case scan_bindings (r_bindings r) channel peerId groupId of
        Some a \<Rightarrow> a
      | None \<Rightarrow> r_defaultAgentId r)"

definition routeMessage :: "Router \<Rightarrow> IncomingMessage \<Rightarrow> exn + AgentConfig" where
  "routeMessage r message =
     (let aid = findAgentId r (msg_channel message) (msg_userId message) (msg_groupId message)
      in case getAgent r aid of
           Some agent \<Rightarrow> Inr agent
         | None \<Rightarrow>
             (case getAgent r (r_defaultAgentId r) of
                None \<Rightarrow> Inl (Error ''No agent configured for routing'')
              | Some defaultAgent \<Rightarrow> Inr defaultAgent))"

subsection \<open>Chat keys\<close>



record BuildOptions =
  bo_botId :: "string option"
  bo_isGroup :: "bool option"
  bo_sessionName :: "string option"

definition buildChatKey :: "string \<Rightarrow> string \<Rightarrow> BuildOptions option \<Rightarrow> string" where
  "buildChatKey channel ident options =
     (let botId = (case options of None \<Rightarrow> None | Some opt \<Rightarrow> bo_botId opt);
          isGroup = (case options of None \<Rightarrow> None | Some opt \<Rightarrow> bo_isGroup opt);
          sessionName = (case options of None \<Rightarrow> None | Some opt \<Rightarrow> bo_sessionName opt);
          parts0 = [channel];
          parts1 = (if truthy botId then parts0 @ [the botId] else parts0);
          parts2 = (if isGroup = Some True
                    then parts1 @ [if channel = ''discord'' then ''channel'' else ''group'']
                    else parts1);
          parts3 = parts2 @ [ident];
          parts4 = (if truthy sessionName \<and> sessionName \<noteq> Some ''main''
                    then parts3 @ [the sessionName] else parts3)
      in join_with '':'' parts4)"

section \<open>The SQLite store\<close>

text \<open>
  Each table is the list of its rows in insertion order. Timestamps are milliseconds
  since the epoch, from year 0000 on (the clock gives no earlier instant). The store
  keeps them as the text of \<^verbatim>\<open>toISOString\<close> and its queries compare that text:
  \<open>iso_less\<close> is this comparison. Up to year 9999 the text has a four-digit year and
  its order is the order of the instants; from year 10000 on (\<open>Y10K\<close>) the text
  starts with \<open>+\<close>, so it sorts before every four-digit year, and among themselves these
  texts are again in the order of the instants. \<open>order_by_desc\<close> is
  \<^verbatim>\<open>ORDER BY ... DESC\<close> on such a column: greatest text first, rows with the same
  timestamp in insertion order. Comparisons of \<^verbatim>\<open>Date\<close> values in the program are
  comparisons of the integers. Every operation that reads the clock takes the reading as
  \<open>now\<close>.
\<close>

type_synonym time = int

definition Y10K :: time where
  "Y10K = 253402300800000"

definition iso_less :: "time \<Rightarrow> time \<Rightarrow> bool" where
  "iso_less a b = (if (a < Y10K) = (b < Y10K) then a < b else b < Y10K)"

definition order_by_desc :: "('a \<Rightarrow> time) \<Rightarrow> 'a list \<Rightarrow> 'a list" where
  "order_by_desc key rows =
     sort_key (\<lambda>row. - key row) (filter (\<lambda>row. key row < Y10K) rows) @
     sort_key (\<lambda>row. - key row) (filter (\<lambda>row. \<not> key row < Y10K) rows)"

record SessionInfo =
  si_id :: nat
  si_chatKey :: string
  si_sessionName :: string
  si_sdkSessionId :: string
  si_workspace :: "string option"
  si_agentId :: string
  si_createdAt :: time
  si_lastActive :: time
  si_status :: string

record PairingRequest =
  pr_code :: string
  pr_chatKey :: string
  pr_userInfo :: UserInfo
  pr_createdAt :: time
  pr_expiresAt :: time

record AllowlistEntry =
  al_chatKey :: string
  al_addedAt :: time
  al_addedBy :: "string option"

record BridgeDatabase =
  sessions :: "SessionInfo list"
  sessions_seq :: nat
  active_sessions :: "(string \<times> string) list"
  pairing_requests :: "PairingRequest list"
  allowlist :: "AllowlistEntry list"

definition empty_db :: BridgeDatabase where
  "empty_db = \<lparr>sessions = [], sessions_seq = 0, active_sessions = [],
                pairing_requests = [], allowlist = []\<rparr>"

definition or_main :: "string option \<Rightarrow> string" where
  "or_main sessionName = (case sessionName of None \<Rightarrow> ''main'' | Some n \<Rightarrow> n)"

definition or_null :: "string option \<Rightarrow> string option" where
  "or_null s = (if truthy s then s else None)"

definition session_at :: "string \<Rightarrow> string \<Rightarrow> SessionInfo \<Rightarrow> bool" where
  "session_at chatKey sessionName row =
     (si_chatKey row = chatKey \<and> si_sessionName row = sessionName)"

definition getSession :: "BridgeDatabase \<Rightarrow> string \<Rightarrow> string option \<Rightarrow> SessionInfo option" where
  "getSession db chatKey sessionName =
     find (session_at chatKey (or_main sessionName)) (sessions db)"

text \<open>
  \<open>saveSession\<close> is the upsert on \<open>(chat_key, session_name)\<close>: without a row on the
  key it inserts one with the next id and status \<open>active\<close>; with one it sets
  \<open>sdk_session_id\<close> and \<open>last_active\<close> of that row and nothing else.
\<close>

definition saveSession ::
  "BridgeDatabase \<Rightarrow> time \<Rightarrow> string \<Rightarrow> string \<Rightarrow> string \<Rightarrow> string option \<Rightarrow> string option
     \<Rightarrow> BridgeDatabase" where
  "saveSession db now chatKey sdkSessionId agentId' sessionName workspace =
     (let name = or_main sessionName
      in if list_ex (session_at chatKey name) (sessions db)
         then db\<lparr>sessions :=
                   map (\<lambda>row. if session_at chatKey name row
                               then row\<lparr>si_sdkSessionId := sdkSessionId, si_lastActive := now\<rparr>
                               else row)
                       (sessions db)\<rparr>
         else db\<lparr>sessions := sessions db @
                   [\<lparr>si_id = Suc (sessions_seq db), si_chatKey = chatKey,
                     si_sessionName = name, si_sdkSessionId = sdkSessionId,
                     si_workspace = workspace, si_agentId = agentId', si_createdAt = now,
                     si_lastActive = now, si_status = ''active''\<rparr>],
                 sessions_seq := Suc (sessions_seq db)\<rparr>)"

definition updateSessionActivity ::
  "BridgeDatabase \<Rightarrow> time \<Rightarrow> string \<Rightarrow> string option \<Rightarrow> BridgeDatabase" where
  "updateSessionActivity db now chatKey sessionName =
     db\<lparr>sessions :=
          map (\<lambda>row. if session_at chatKey (or_main sessionName) row
                      then row\<lparr>si_lastActive := now\<rparr> else row)
              (sessions db)\<rparr>"

definition listSessions :: "BridgeDatabase \<Rightarrow> string \<Rightarrow> SessionInfo list" where
  "listSessions db chatKey =
     order_by_desc si_lastActive (filter (\<lambda>row. si_chatKey row = chatKey) (sessions db))"

definition deleteSession :: "BridgeDatabase \<Rightarrow> string \<Rightarrow> string option \<Rightarrow> BridgeDatabase" where
  "deleteSession db chatKey sessionName =
     db\<lparr>sessions := filter (\<lambda>row. \<not> session_at chatKey (or_main sessionName) row) (sessions db)\<rparr>"

definition deleteAllSessions :: "BridgeDatabase \<Rightarrow> string \<Rightarrow> BridgeDatabase" where
  "deleteAllSessions db chatKey =
     db\<lparr>sessions := filter (\<lambda>row. si_chatKey row \<noteq> chatKey) (sessions db),
        active_sessions := filter (\<lambda>kv. fst kv \<noteq> chatKey) (active_sessions db)\<rparr>"

definition getActiveSessionName :: "BridgeDatabase \<Rightarrow> string \<Rightarrow> string" where
  "getActiveSessionName db chatKey =
     (let name = map_of (active_sessions db) chatKey
      in if truthy name then the name else ''main'')"

definition setActiveSession :: "BridgeDatabase \<Rightarrow> string \<Rightarrow> string \<Rightarrow> BridgeDatabase" where
  "setActiveSession db chatKey sessionName =
     db\<lparr>active_sessions := AList.update chatKey sessionName (active_sessions db)\<rparr>"

subsection \<open>Pairing requests\<close>

text \<open>
  \<open>code\<close> is the primary key: inserting a code that is already in the table fails
  with a constraint error.
\<close>

definition savePairingRequest ::
  "BridgeDatabase \<Rightarrow> time \<Rightarrow> string \<Rightarrow> string \<Rightarrow> UserInfo \<Rightarrow> int \<Rightarrow> exn + BridgeDatabase" where
  "savePairingRequest db now code chatKey userInfo expiresInMs =
     (if list_ex (\<lambda>row. pr_code row = code) (pairing_requests db)
      then Inl (SqliteError ''UNIQUE constraint failed: pairing_requests.code'')
      else Inr (db\<lparr>pairing_requests := pairing_requests db @
                  [\<lparr>pr_code = code, pr_chatKey = chatKey,
                    pr_userInfo = userInfo\<lparr>ui_username := or_null (ui_username userInfo),
                                           ui_displayName := or_null (ui_displayName userInfo)\<rparr>,
                    pr_createdAt = now, pr_expiresAt = now + expiresInMs\<rparr>]\<rparr>))"

definition getPairingRequest :: "BridgeDatabase \<Rightarrow> string \<Rightarrow> PairingRequest option" where
  "getPairingRequest db code = find (\<lambda>row. pr_code row = code) (pairing_requests db)"

definition deletePairingRequest :: "BridgeDatabase \<Rightarrow> string \<Rightarrow> BridgeDatabase" where
  "deletePairingRequest db code =
     db\<lparr>pairing_requests := filter (\<lambda>row. pr_code row \<noteq> code) (pairing_requests db)\<rparr>"

definition cleanupExpiredPairingRequests :: "BridgeDatabase \<Rightarrow> time \<Rightarrow> nat \<times> BridgeDatabase" where
  "cleanupExpiredPairingRequests db now =
     (length (filter (\<lambda>row. iso_less (pr_expiresAt row) now) (pairing_requests db)),
      db\<lparr>pairing_requests :=
           filter (\<lambda>row. \<not> iso_less (pr_expiresAt row) now) (pairing_requests db)\<rparr>)"

definition listPendingPairingRequests :: "BridgeDatabase \<Rightarrow> time \<Rightarrow> PairingRequest list" where
  "listPendingPairingRequests db now =
     order_by_desc pr_createdAt
       (filter (\<lambda>row. iso_less now (pr_expiresAt row)) (pairing_requests db))"

subsection \<open>Allowlist\<close>

definition db_isAllowed :: "BridgeDatabase \<Rightarrow> string \<Rightarrow> bool" where
  "db_isAllowed db chatKey = list_ex (\<lambda>row. al_chatKey row = chatKey) (allowlist db)"

definition addToAllowlist ::
  "BridgeDatabase \<Rightarrow> time \<Rightarrow> string \<Rightarrow> string option \<Rightarrow> BridgeDatabase" where
  "addToAllowlist db now chatKey addedBy =
     (if list_ex (\<lambda>row. al_chatKey row = chatKey) (allowlist db) then db
      else db\<lparr>allowlist := allowlist db @
                [\<lparr>al_chatKey = chatKey, al_addedAt = now, al_addedBy = or_null addedBy\<rparr>]\<rparr>)"

definition removeFromAllowlist :: "BridgeDatabase \<Rightarrow> string \<Rightarrow> BridgeDatabase" where
  "removeFromAllowlist db chatKey =
     db\<lparr>allowlist := filter (\<lambda>row. al_chatKey row \<noteq> chatKey) (allowlist db)\<rparr>"

definition listAllowlist :: "BridgeDatabase \<Rightarrow> AllowlistEntry list" where
  "listAllowlist db = order_by_desc al_addedAt (allowlist db)"

section \<open>Pairing manager\<close>

definition hex_digit :: "nat \<Rightarrow> char" where
  "hex_digit n = ''0123456789abcdef'' ! (n mod 16)"

definition hex_of_bytes :: "char list \<Rightarrow> string" where
  "hex_of_bytes bs =
     concat (map (\<lambda>b. [hex_digit (of_char b div 16), hex_digit (of_char b mod 16)]) bs)"

definition CODE_LENGTH :: nat where
  "CODE_LENGTH = 6"

definition DEFAULT_EXPIRY_MS :: int where
  "DEFAULT_EXPIRY_MS = 60 * 60 * 1000"

text \<open>
  \<open>generateCode\<close> reaps the expired rows, renders the random bytes it is given (the
  result of \<^verbatim>\<open>randomBytes(3)\<close>) as upper-case hex and stores the request.
\<close>

definition generateCode ::
  "BridgeDatabase \<Rightarrow> time \<Rightarrow> char list \<Rightarrow> string \<Rightarrow> UserInfo \<Rightarrow> int
     \<Rightarrow> exn + (string \<times> BridgeDatabase)" where
  "generateCode db now randomBytes chatKey userInfo expiresInMs =
     (let db1 = snd (cleanupExpiredPairingRequests db now);
          code = take CODE_LENGTH (toUpperCase (hex_of_bytes randomBytes))
      in case savePairingRequest db1 now code chatKey userInfo expiresInMs of
           Inl e \<Rightarrow> Inl e
         | Inr db2 \<Rightarrow> Inr (code, db2))"

datatype approve_result = Success string UserInfo | Failure string

definition approve :: "BridgeDatabase \<Rightarrow> time \<Rightarrow> string \<Rightarrow> approve_result \<times> BridgeDatabase" where
  "approve db now code =
     (case getPairingRequest db (toUpperCase code) of
        None \<Rightarrow> (Failure ''Invalid or expired pairing code'', db)
      | Some request \<Rightarrow>
          if now > pr_expiresAt request
          then (Failure ''Pairing code has expired'', deletePairingRequest db code)
          else (let db1 = addToAllowlist db now (pr_chatKey request) (Some (''pairing:'' @ code));
                    db2 = deletePairingRequest db1 code
                in (Success (pr_chatKey request) (pr_userInfo request), db2)))"

definition getRequest :: "BridgeDatabase \<Rightarrow> time \<Rightarrow> string \<Rightarrow> PairingRequest option" where
  "getRequest db now code =
     (case getPairingRequest db (toUpperCase code) of
        None \<Rightarrow> None
      | Some request \<Rightarrow> if now > pr_expiresAt request then None else Some request)"

definition listPending :: "BridgeDatabase \<Rightarrow> time \<Rightarrow> PairingRequest list" where
  "listPending db now = listPendingPairingRequests db now"

definition reject :: "BridgeDatabase \<Rightarrow> string \<Rightarrow> bool \<times> BridgeDatabase" where
  "reject db code =
     (case getPairingRequest db (toUpperCase code) of
        None \<Rightarrow> (False, db)
      | Some request \<Rightarrow> (True, deletePairingRequest db code))"

section \<open>Allowlist manager\<close>

record ChannelConfig =
  enabled :: bool
  dmPolicy :: string
  allowFrom :: "string list option"

record AccessResult =
  allowed :: bool
  reason :: "string option"

definition isInConfigAllowlist ::
  "(string \<Rightarrow> string) \<Rightarrow> UserInfo \<Rightarrow> ChannelConfig \<Rightarrow> bool" where
  "isInConfigAllowlist toLowerCase userInfo config =
     (case allowFrom config of
        None \<Rightarrow> False
      | Some af \<Rightarrow>
          if length af = 0 then False
          else list_ex (\<lambda>a. a = ui_id userInfo \<or> Some a = ui_username userInfo \<or>
                             (truthy (ui_username userInfo) \<and>
                              toLowerCase a = toLowerCase (the (ui_username userInfo)))) af)"

definition isAllowed ::
  "(string \<Rightarrow> string) \<Rightarrow> BridgeDatabase \<Rightarrow> string \<Rightarrow> UserInfo \<Rightarrow> ChannelConfig option
     \<Rightarrow> AccessResult" where
  "isAllowed toLowerCase db chatKey userInfo channelConfig =
     (case channelConfig of
        None \<Rightarrow> \<lparr>allowed = False, reason = Some ''Channel not configured''\<rparr>
      | Some cfg \<Rightarrow>
          if \<not> enabled cfg then \<lparr>allowed = False, reason = Some ''Channel is disabled''\<rparr>
          else if dmPolicy cfg = ''open'' then \<lparr>allowed = True, reason = None\<rparr>
          else if dmPolicy cfg = ''pairing'' then
            (if db_isAllowed db chatKey then \<lparr>allowed = True, reason = None\<rparr>
             else if isInConfigAllowlist toLowerCase userInfo cfg
             then \<lparr>allowed = True, reason = None\<rparr>
             else \<lparr>allowed = False, reason = Some ''Pairing required''\<rparr>)
          else if dmPolicy cfg = ''allowlist'' then
            (if db_isAllowed db chatKey then \<lparr>allowed = True, reason = None\<rparr>
             else if isInConfigAllowlist toLowerCase userInfo cfg
             then \<lparr>allowed = True, reason = None\<rparr>
             else \<lparr>allowed = False, reason = Some ''Not in allowlist''\<rparr>)
          else \<lparr>allowed = False, reason = Some ''Unknown policy''\<rparr>)"

section \<open>Session manager\<close>

record SendMessageOptions =
  o_agentId :: "string option"
  o_sessionName :: "string option"

datatype StreamChunk =
  TextChunk string | ToolUseChunk string | ToolResultChunk | ErrorChunk string | DoneChunk

datatype ContentBlock = TextBlock string | ToolUseBlock string | OtherBlock

datatype SDKMessage =
  AssistantMessage "ContentBlock list option" | ResultMessage string | OtherMessage

text \<open>
  The agent SDK is outside the program. A call of its \<^verbatim>\<open>query\<close> is a function from
  the prompt and the options to the events the stream delivers and, when the stream (or the
  call itself) throws, the message of the error thrown after them.
\<close>

record SDKResponse =
  events :: "SDKMessage list"
  raised :: "string option"

datatype McpServer =
  SseServer string | StdioServer string "string list" "(string \<times> string) list option"

record QueryOptions =
  q_model :: "string option"
  q_cwd :: string
  q_permissionMode :: string
  q_maxTurns :: nat
  q_systemPrompt :: "string option"
  q_resume :: "string option"
  q_allowedTools :: "string list option"
  q_disallowedTools :: "string list option"
  q_mcpServers :: "(string \<times> McpServer) list option"

record CachedSession =
  cs_id :: string
  cs_agentConfig :: AgentConfig
  cs_chatKey :: string
  cs_sessionName :: string

record SessionManager =
  sm_db :: BridgeDatabase
  sm_router :: Router
  sm_activeSessions :: "(string \<times> CachedSession) list"

record TurnResult =
  chunks :: "StreamChunk list"
  sm_after :: SessionManager
  port_calls :: "(string \<times> QueryOptions) list"
  thrown :: "exn option"

definition fullKey :: "string \<Rightarrow> string \<Rightarrow> string" where
  "fullKey chatKey sessionName =
     (if sessionName = ''main'' then chatKey else chatKey @ '':'' @ sessionName)"

fun decimal :: "nat \<Rightarrow> string" where
  "decimal n =
     (if n < 10 then [''0123456789'' ! n]
      else decimal (n div 10) @ [''0123456789'' ! (n mod 10)])"

text \<open>
  The placeholder handle is \<^verbatim>\<open>ccb-<Date.now()>-<random suffix>\<close>; the suffix, six
  base-36 digits of \<^verbatim>\<open>Math.random()\<close>, is passed in as \<open>rnd\<close>.
\<close>

definition placeholderId :: "time \<Rightarrow> string \<Rightarrow> string" where
  "placeholderId now rnd = ''ccb-'' @ decimal (nat now) @ ''-'' @ rnd"

definition createNewSession ::
  "SessionManager \<Rightarrow> time \<Rightarrow> string \<Rightarrow> string \<Rightarrow> AgentConfig \<Rightarrow> string
     \<Rightarrow> CachedSession \<times> SessionManager" where
  "createNewSession sm now rnd chatKey agentConfig sessionName =
     (let sessionId = placeholderId now rnd;
          db' = saveSession (sm_db sm) now chatKey sessionId (ac_id agentConfig)
                  (Some sessionName) (Some (ac_workspace agentConfig));
          session = \<lparr>cs_id = sessionId, cs_agentConfig = agentConfig, cs_chatKey = chatKey,
                     cs_sessionName = sessionName\<rparr>
      in (session,
          sm\<lparr>sm_db := db',
             sm_activeSessions :=
               AList.update (fullKey chatKey sessionName) session (sm_activeSessions sm)\<rparr>))"

definition getOrCreateSession ::
  "SessionManager \<Rightarrow> time \<Rightarrow> string \<Rightarrow> string \<Rightarrow> AgentConfig \<Rightarrow> string option
     \<Rightarrow> CachedSession \<times> SessionManager" where
  "getOrCreateSession sm now rnd chatKey agentConfig sessionName' =
     (let sessionName = or_main sessionName'
      in case map_of (sm_activeSessions sm) (fullKey chatKey sessionName) of
           Some cached \<Rightarrow> (cached, sm)
         | None \<Rightarrow>
             (case getSession (sm_db sm) chatKey (Some sessionName) of
                Some existingSession \<Rightarrow>
                  (let session = \<lparr>cs_id = si_sdkSessionId existingSession,
                                  cs_agentConfig = agentConfig, cs_chatKey = chatKey,
                                  cs_sessionName = sessionName\<rparr>
                   in (session,
                       sm\<lparr>sm_db := updateSessionActivity (sm_db sm) now chatKey (Some sessionName),
                          sm_activeSessions :=
                            AList.update (fullKey chatKey sessionName) session
                              (sm_activeSessions sm)\<rparr>))
              | None \<Rightarrow> createNewSession sm now rnd chatKey agentConfig sessionName))"

definition createNamedSession ::
  "SessionManager \<Rightarrow> time \<Rightarrow> string \<Rightarrow> string \<Rightarrow> string \<Rightarrow> string option
     \<Rightarrow> exn + SessionManager" where
  "createNamedSession sm now rnd chatKey name agentId' =
     (case (if truthy agentId' then getAgent (sm_router sm) (the agentId')
            else (case getAllAgents (sm_router sm) of [] \<Rightarrow> None | a # _ \<Rightarrow> Some a)) of
        None \<Rightarrow> Inl (Error ''No agent configured'')
      | Some agent \<Rightarrow>
          Inr (sm\<lparr>sm_db :=
                    setActiveSession
                      (saveSession (sm_db sm) now chatKey (placeholderId now rnd) (ac_id agent)
                         (Some name) (Some (ac_workspace agent)))
                      chatKey name\<rparr>))"

fun first_chunk :: "ContentBlock list \<Rightarrow> StreamChunk option" where
  "first_chunk [] = None"
| "first_chunk (TextBlock t # bs) = Some (TextChunk t)"
| "first_chunk (ToolUseBlock n # bs) = Some (ToolUseChunk n)"
| "first_chunk (OtherBlock # bs) = first_chunk bs"

definition processSDKMessage :: "SDKMessage \<Rightarrow> StreamChunk option" where
  "processSDKMessage event =
     (case event of
        AssistantMessage (Some content) \<Rightarrow> first_chunk content
      | _ \<Rightarrow> None)"

datatype agent_choice = Chosen AgentConfig | UnknownAgent string | RouteFailed exn

definition chooseAgent :: "Router \<Rightarrow> IncomingMessage \<Rightarrow> SendMessageOptions \<Rightarrow> agent_choice" where
  "chooseAgent router message options =
     (if truthy (o_agentId options)
      then (case getAgent router (the (o_agentId options)) of
              None \<Rightarrow> UnknownAgent (the (o_agentId options))
            | Some specified \<Rightarrow> Chosen specified)
      else (case routeMessage router message of
              Inl e \<Rightarrow> RouteFailed e
            | Inr agent \<Rightarrow> Chosen agent))"

definition mcpServersRecord :: "MCPServerConfig list \<Rightarrow> (string \<times> McpServer) list" where
  "mcpServersRecord servers =
     foldl (\<lambda>rec server.
              AList.update (mcp_name server)
                (if mcp_type server = Some ''sse'' \<and> truthy (mcp_url server)
                 then SseServer (the (mcp_url server))
                 else StdioServer (case mcp_command server of None \<Rightarrow> [] | Some c \<Rightarrow> c)
                        (case mcp_args server of None \<Rightarrow> [] | Some a \<Rightarrow> a)
                        (mcp_env server))
                rec)
           [] servers"

definition nonempty_list :: "'a list option \<Rightarrow> bool" where
  "nonempty_list xs = (case xs of None \<Rightarrow> False | Some l \<Rightarrow> length l > 0)"

definition buildQueryOptions ::
  "AgentConfig \<Rightarrow> IncomingMessage \<Rightarrow> string option \<Rightarrow> QueryOptions" where
  "buildQueryOptions agent message resumeSessionId =
     (let ui = msg_userInfo message;
          who = (if truthy (ui_displayName ui) then the (ui_displayName ui)
                 else if truthy (ui_username ui) then the (ui_username ui)
                 else msg_userId message);
          systemParts =
            (if truthy (ac_systemPrompt agent) then [the (ac_systemPrompt agent)] else []) @
            [''User info: '' @ who @ '' via '' @ msg_channel message]
      in \<lparr>q_model = ac_model agent,
          q_cwd = ac_workspace agent,
          q_permissionMode =
            (if truthy (ac_permissionMode agent) then the (ac_permissionMode agent)
             else ''acceptEdits''),
          q_maxTurns =
            (case ac_maxTurns agent of None \<Rightarrow> 10 | Some n \<Rightarrow> if n = 0 then 10 else n),
          q_systemPrompt =
            (if length systemParts > 0 then Some (join_with [CHR 0x0A, CHR 0x0A] systemParts)
             else None),
          q_resume =
            (if truthy resumeSessionId \<and> \<not> startsWith (the resumeSessionId) ''ccb-''
             then resumeSessionId else None),
          q_allowedTools = (if nonempty_list (ac_tools agent) then ac_tools agent else None),
          q_disallowedTools =
            (if nonempty_list (ac_disallowedTools agent) then ac_disallowedTools agent else None),
          q_mcpServers =
            (if nonempty_list (ac_mcpServers agent)
             then Some (mcpServersRecord (the (ac_mcpServers agent))) else None)\<rparr>)"

text \<open>
  The streaming loop: each event yields at most one chunk, and a \<open>result\<close> event
  replaces the session id that will be saved.
\<close>

fun streamEvents ::
  "SDKMessage list \<Rightarrow> string option \<Rightarrow> StreamChunk list \<times> string option" where
  "streamEvents [] sessionId = ([], sessionId)"
| "streamEvents (event # rest) sessionId =
     (let r = streamEvents rest
                (case event of ResultMessage sid \<Rightarrow> Some sid | _ \<Rightarrow> sessionId)
      in ((case processSDKMessage event of None \<Rightarrow> fst r | Some c \<Rightarrow> c # fst r), snd r))"

text \<open>
  \<open>sendMessage\<close> returns the chunks the generator yields, the session manager after
  the turn, the calls made to the SDK and the exception that escapes the generator, if any
  (a routing failure is raised before the \<^verbatim>\<open>try\<close> block). Errors thrown inside the
  \<^verbatim>\<open>try\<close> block become the final \<open>error\<close> chunk.
\<close>

definition sendMessage ::
  "SessionManager \<Rightarrow> time \<Rightarrow> (string \<Rightarrow> QueryOptions \<Rightarrow> SDKResponse) \<Rightarrow> IncomingMessage
     \<Rightarrow> SendMessageOptions \<Rightarrow> TurnResult" where
  "sendMessage sm now query message options =
     (let sessionName = (case o_sessionName options of
                           None \<Rightarrow> getActiveSessionName (sm_db sm) (msg_chatKey message)
                         | Some n \<Rightarrow> n)
      in case chooseAgent (sm_router sm) message options of
           UnknownAgent a \<Rightarrow>
             \<lparr>chunks = [ErrorChunk (''Unknown agent: '' @ a)], sm_after = sm,
              port_calls = [], thrown = None\<rparr>
         | RouteFailed e \<Rightarrow>
             \<lparr>chunks = [], sm_after = sm, port_calls = [], thrown = Some e\<rparr>
         | Chosen agent \<Rightarrow>
             (let existingSession = getSession (sm_db sm) (msg_chatKey message) (Some sessionName);
                  resumeSessionId = map_option si_sdkSessionId existingSession;
                  queryOptions = buildQueryOptions agent message resumeSessionId;
                  response = query (msg_text message) queryOptions;
                  streamed = streamEvents (events response) resumeSessionId;
                  sessionId = snd streamed
              in case raised response of
                   Some errorMessage \<Rightarrow>
                     \<lparr>chunks = fst streamed @ [ErrorChunk errorMessage], sm_after = sm,
                      port_calls = [(msg_text message, queryOptions)], thrown = None\<rparr>
                 | None \<Rightarrow>
                     \<lparr>chunks = fst streamed @ [DoneChunk],
                      sm_after =
                        (if truthy sessionId
                         then sm\<lparr>sm_db := saveSession (sm_db sm) now (msg_chatKey message)
                                             (the sessionId) (ac_id agent) (Some sessionName)
                                             (Some (ac_workspace agent))\<rparr>
                         else sm),
                      port_calls = [(msg_text message, queryOptions)], thrown = None\<rparr>))"

section \<open>Reference definitions and example values\<close>

text \<open>
  \<open>spec_matches\<close> is the matching rule in the words of the specification: a binding
  matches iff every criterion it specifies equals the corresponding input field.
  \<open>criterion_holds\<close> is the rule the router applies to one criterion.
\<close>

definition spec_matches :: "AgentBinding \<Rightarrow> string \<Rightarrow> string \<Rightarrow> string option \<Rightarrow> bool" where
  "spec_matches binding channel peerId groupId =
     (case b_match binding of
        None \<Rightarrow> True
      | Some m \<Rightarrow>
          (case m_channel m of None \<Rightarrow> True | Some c \<Rightarrow> c = channel) \<and>
          (case m_peer m of None \<Rightarrow> True | Some p \<Rightarrow> p = peerId) \<and>
          (case m_group m of None \<Rightarrow> True | Some g \<Rightarrow> Some g = groupId))"

definition criterion_holds :: "string option \<Rightarrow> string option \<Rightarrow> bool" where
  "criterion_holds criterion field =
     (criterion = None \<or> criterion = Some [] \<or> criterion = field)"

definition binding_order_config :: "AgentConfig list \<Rightarrow> BridgeConfig" where
  "binding_order_config as =
     \<lparr>agents_list = as,
      bindings =
        [\<lparr>agentId = ''A'',
          b_match = Some \<lparr>m_channel = Some ''discord'', m_peer = None, m_group = None\<rparr>\<rparr>,
         \<lparr>agentId = ''B'', b_match = None\<rparr>]\<rparr>"

definition empty_peer_binding :: AgentBinding where
  "empty_peer_binding =
     \<lparr>agentId = ''A'', b_match = Some \<lparr>m_channel = None, m_peer = Some [], m_group = None\<rparr>\<rparr>"

definition main_agent :: AgentConfig where
  "main_agent =
     \<lparr>ac_id = ''main'', ac_name = ''Main'', ac_workspace = ''/work'', ac_model = None,
      ac_systemPrompt = None, ac_maxTurns = None, ac_permissionMode = None,
      ac_mcpServers = None, ac_tools = None, ac_disallowedTools = None\<rparr>"

definition drift_config :: BridgeConfig where
  "drift_config =
     \<lparr>agents_list = [main_agent],
      bindings =
        [\<lparr>agentId = ''ghost'',
          b_match = Some \<lparr>m_channel = Some ''telegram'', m_peer = None, m_group = None\<rparr>\<rparr>,
         \<lparr>agentId = ''main'', b_match = None\<rparr>]\<rparr>"

definition drift_router :: Router where
  "drift_router =
     \<lparr>r_agents = [(''main'', main_agent)], r_bindings = bindings drift_config,
      r_defaultAgentId = ''main''\<rparr>"

definition bob :: UserInfo where
  "bob = \<lparr>ui_id = ''u42'', ui_username = Some ''Bob'', ui_displayName = None,
          ui_channel = ''telegram''\<rparr>"

definition hello :: IncomingMessage where
  "hello =
     \<lparr>msg_chatKey = ''telegram:u42'', msg_channel = ''telegram'', msg_userId = ''u42'',
      msg_text = ''hello'', msg_userInfo = bob, msg_isGroup = False, msg_groupId = None\<rparr>"











text \<open>
  \<open>same_letter\<close> holds of two characters that are equal or are the capital and the
  small form of one ASCII letter.
\<close>

definition same_letter :: "char \<Rightarrow> char \<Rightarrow> bool" where
  "same_letter c d =
     (let m = (of_char c :: nat); n = (of_char d :: nat)
      in m = n \<or> (65 \<le> m \<and> m \<le> 90 \<and> n = m + 32) \<or> (65 \<le> n \<and> n \<le> 90 \<and> m = n + 32))"

definition the_allowFrom :: "ChannelConfig \<Rightarrow> string list" where
  "the_allowFrom config = (case allowFrom config of None \<Rightarrow> [] | Some af \<Rightarrow> af)"

definition cfg_of :: "string \<Rightarrow> string list \<Rightarrow> ChannelConfig" where
  "cfg_of policy af = \<lparr>enabled = True, dmPolicy = policy, allowFrom = Some af\<rparr>"

definition issued_db :: BridgeDatabase where
  "issued_db =
     empty_db\<lparr>pairing_requests :=
       [\<lparr>pr_code = ''AB12CD'', pr_chatKey = ''telegram:u42'', pr_userInfo = bob,
         pr_createdAt = 1000, pr_expiresAt = 3601000\<rparr>]\<rparr>"

definition zero_ttl_request :: PairingRequest where
  "zero_ttl_request =
     \<lparr>pr_code = ''AB12CD'', pr_chatKey = ''telegram:u42'', pr_userInfo = bob,
      pr_createdAt = 1000, pr_expiresAt = 1000\<rparr>"

definition zero_ttl_db :: BridgeDatabase where
  "zero_ttl_db = empty_db\<lparr>pairing_requests := [zero_ttl_request]\<rparr>"

definition placeholder_row :: SessionInfo where
  "placeholder_row =
     \<lparr>si_id = 1, si_chatKey = ''telegram:u42'', si_sessionName = ''main'',
      si_sdkSessionId = ''ccb-1000-k3j9xa'', si_workspace = Some ''/work'', si_agentId = ''main'',
      si_createdAt = 1000, si_lastActive = 1000, si_status = ''active''\<rparr>"

definition placeholder_db :: BridgeDatabase where
  "placeholder_db = empty_db\<lparr>sessions := [placeholder_row], sessions_seq := 1\<rparr>"

text \<open>
  For the session manager: the session name a turn addresses, the session id carried by
  the last \<open>result\<close> event of a stream, the property that no stored handle is empty,
  the test for an \<open>error\<close> chunk, and two SDK behaviours used as examples.
\<close>

definition target_session :: "SessionManager \<Rightarrow> IncomingMessage \<Rightarrow> SendMessageOptions \<Rightarrow> string" where
  "target_session sm message options =
     (case o_sessionName options of
        None \<Rightarrow> getActiveSessionName (sm_db sm) (msg_chatKey message)
      | Some n \<Rightarrow> n)"

fun last_result :: "SDKMessage list \<Rightarrow> string option" where
  "last_result [] = None"
| "last_result (event # rest) =
     (case last_result rest of
        Some sid \<Rightarrow> Some sid
      | None \<Rightarrow> (case event of ResultMessage sid \<Rightarrow> Some sid | _ \<Rightarrow> None))"

definition handles_nonempty :: "BridgeDatabase \<Rightarrow> bool" where
  "handles_nonempty db = list_all (\<lambda>row. si_sdkSessionId row \<noteq> []) (sessions db)"

fun is_error :: "StreamChunk \<Rightarrow> bool" where
  "is_error (ErrorChunk e) = True"
| "is_error c = False"

definition turn_options ::
  "SessionManager \<Rightarrow> IncomingMessage \<Rightarrow> SendMessageOptions \<Rightarrow> AgentConfig \<Rightarrow> QueryOptions" where
  "turn_options sm message options agent =
     buildQueryOptions agent message
       (map_option si_sdkSessionId
          (getSession (sm_db sm) (msg_chatKey message) (Some (target_session sm message options))))"

definition turn_response ::
  "SessionManager \<Rightarrow> (string \<Rightarrow> QueryOptions \<Rightarrow> SDKResponse) \<Rightarrow> IncomingMessage
     \<Rightarrow> SendMessageOptions \<Rightarrow> AgentConfig \<Rightarrow> SDKResponse" where
  "turn_response sm query message options agent =
     query (msg_text message) (turn_options sm message options agent)"

definition answering_port :: "string \<Rightarrow> QueryOptions \<Rightarrow> SDKResponse" where
  "answering_port prompt opts =
     \<lparr>events = [AssistantMessage (Some [TextBlock ''hi'']), ResultMessage ''sdk-1''],
      raised = None\<rparr>"

definition failing_port :: "string \<Rightarrow> QueryOptions \<Rightarrow> SDKResponse" where
  "failing_port prompt opts =
     \<lparr>events = [AssistantMessage (Some [TextBlock ''partial'']), ResultMessage ''sdk-9''],
      raised = Some ''boom''\<rparr>"

definition no_options :: SendMessageOptions where
  "no_options = \<lparr>o_agentId = None, o_sessionName = None\<rparr>"

definition fresh_manager :: SessionManager where
  "fresh_manager =
     \<lparr>sm_db = placeholder_db, sm_router = drift_router, sm_activeSessions = []\<rparr>"

section \<open>The chat-key round trip\<close>





lemma buildChatKey_no_options:
  "buildChatKey channel ident None =
   buildChatKey channel ident (Some \<lparr>bo_botId = None, bo_isGroup = None, bo_sessionName = None\<rparr>)"
  by (simp add: buildChatKey_def)






section \<open>Binding resolution and routing\<close>

lemma scan_bindings_find:
  "scan_bindings bs ch p g = map_option agentId (find (\<lambda>b. matchesBinding b ch p g) bs)"
  by (induction bs) simp_all

lemma matchesBinding_iff:
  "matchesBinding b ch p g =
     (case b_match b of
        None \<Rightarrow> True
      | Some m \<Rightarrow>
          criterion_holds (m_channel m) (Some ch) \<and> criterion_holds (m_peer m) (Some p) \<and>
          criterion_holds (m_group m) g)"
  by (auto simp: matchesBinding_def criterion_holds_def truthy_def split: option.splits)

text \<open>
  C6 (amended). Resolution scans the bindings in configured order; a binding matches iff
  every criterion that is present and not the empty string equals the corresponding input
  field (absent and empty criteria always match); the first match's agentId is returned,
  and the default agentId when no binding matches. With the bindings
  \<open>[{agent: A, match: {channel: discord}}, {agent: B}]\<close> a Discord message resolves to
  \<open>A\<close> and a Telegram message to \<open>B\<close>.
\<close>

theorem binding_resolution:
  "matchesBinding b ch p g =
     (case b_match b of
        None \<Rightarrow> True
      | Some m \<Rightarrow>
          criterion_holds (m_channel m) (Some ch) \<and> criterion_holds (m_peer m) (Some p) \<and>
          criterion_holds (m_group m) g) \<and>
   findAgentId r ch p g =
     (case find (\<lambda>b. matchesBinding b ch p g) (r_bindings r) of
        Some b \<Rightarrow> agentId b
      | None \<Rightarrow> r_defaultAgentId r) \<and>
   (case Router_new (binding_order_config as) of
      Inl e \<Rightarrow> False
    | Inr r' \<Rightarrow> findAgentId r' ''discord'' p g = ''A'' \<and> findAgentId r' ''telegram'' p g = ''B'')"
proof (intro conjI)
  show "matchesBinding b ch p g =
     (case b_match b of
        None \<Rightarrow> True
      | Some m \<Rightarrow>
          criterion_holds (m_channel m) (Some ch) \<and> criterion_holds (m_peer m) (Some p) \<and>
          criterion_holds (m_group m) g)"
    by (rule matchesBinding_iff)
next
  show "findAgentId r ch p g =
     (case find (\<lambda>b. matchesBinding b ch p g) (r_bindings r) of
        Some b \<Rightarrow> agentId b
      | None \<Rightarrow> r_defaultAgentId r)"
    by (simp add: findAgentId_def scan_bindings_find split: option.splits)
next
  show "case Router_new (binding_order_config as) of
      Inl e \<Rightarrow> False
    | Inr r' \<Rightarrow> findAgentId r' ''discord'' p g = ''A'' \<and> findAgentId r' ''telegram'' p g = ''B''"
    by (simp add: Router_new_def binding_order_config_def truthy_def findAgentId_def
          matchesBinding_def)
qed

theorem binding_resolution_witness:
  "matchesBinding empty_peer_binding ''telegram'' ''x'' None \<and>
   findAgentId drift_router ''discord'' ''u42'' None = ''main'' \<and>
   findAgentId drift_router ''telegram'' ''u42'' None = ''ghost''"
  using binding_resolution[of empty_peer_binding "''telegram''" "''x''" None drift_router "[]"]
    binding_resolution[of empty_peer_binding "''discord''" "''u42''" None drift_router "[]"]
    binding_resolution[of empty_peer_binding "''telegram''" "''u42''" None drift_router "[]"]
  by (simp add: empty_peer_binding_def criterion_holds_def drift_router_def drift_config_def
        matchesBinding_def truthy_def)

theorem binding_resolution_counterexample:
  "matchesBinding empty_peer_binding ''telegram'' ''x'' None \<and>
   \<not> spec_matches empty_peer_binding ''telegram'' ''x'' None"
  by (simp add: matchesBinding_def spec_matches_def empty_peer_binding_def truthy_def)

text \<open>
  C4 (amended). When the agentId selected by the binding scan has no profile, routing
  falls back to the profile of the default agentId. It fails, with the error
  \<open>No agent configured for routing\<close>, exactly when neither the selected agentId nor
  the default agentId has a profile, and it returns no profile other than these two.
\<close>

theorem routeMessage_fallback:
  "(routeMessage r m = Inl (Error ''No agent configured for routing'')) =
     (getAgent r (findAgentId r (msg_channel m) (msg_userId m) (msg_groupId m)) = None \<and>
      getAgent r (r_defaultAgentId r) = None) \<and>
   (\<forall>a. (routeMessage r m = Inr a) =
      (getAgent r (findAgentId r (msg_channel m) (msg_userId m) (msg_groupId m)) = Some a \<or>
       getAgent r (findAgentId r (msg_channel m) (msg_userId m) (msg_groupId m)) = None \<and>
       getAgent r (r_defaultAgentId r) = Some a)) \<and>
   (\<forall>e. routeMessage r m = Inl e \<longrightarrow> e = Error ''No agent configured for routing'')"
proof (cases "getAgent r (findAgentId r (msg_channel m) (msg_userId m) (msg_groupId m))")
  case None
  then show ?thesis
    by (cases "getAgent r (r_defaultAgentId r)") (simp_all add: routeMessage_def)
next
  case (Some a)
  then show ?thesis by (simp add: routeMessage_def)
qed

theorem routeMessage_fallback_witness:
  "routeMessage drift_router hello = Inr main_agent \<and>
   routeMessage (drift_router\<lparr>r_agents := []\<rparr>) hello =
     Inl (Error ''No agent configured for routing'')"
proof -
  have 1: "getAgent drift_router
            (findAgentId drift_router (msg_channel hello) (msg_userId hello) (msg_groupId hello)) = None"
    by (simp add: drift_router_def drift_config_def hello_def findAgentId_def matchesBinding_def
          truthy_def getAgent_def)
  have 2: "getAgent drift_router (r_defaultAgentId drift_router) = Some main_agent"
    by (simp add: drift_router_def getAgent_def)
  have 3: "getAgent (drift_router\<lparr>r_agents := []\<rparr>) x = None" for x
    by (simp add: getAgent_def)
  have a: "routeMessage drift_router hello = Inr main_agent"
    using 1 2 routeMessage_fallback[of drift_router hello] by blast
  have b: "routeMessage (drift_router\<lparr>r_agents := []\<rparr>) hello =
             Inl (Error ''No agent configured for routing'')"
    using 3 routeMessage_fallback[of "drift_router\<lparr>r_agents := []\<rparr>" hello] by blast
  from a b show ?thesis by (rule conjI)
qed

theorem routeMessage_drift_counterexample:
  "Router_new drift_config = Inr drift_router \<and>
   findAgentId drift_router (msg_channel hello) (msg_userId hello) (msg_groupId hello) = ''ghost'' \<and>
   getAgent drift_router ''ghost'' = None \<and>
   routeMessage drift_router hello = Inr main_agent"
  by (simp add: Router_new_def drift_config_def drift_router_def hello_def main_agent_def
        findAgentId_def matchesBinding_def truthy_def getAgent_def routeMessage_def)

section \<open>Access control\<close>

lemma of_char_lower_char:
  "(of_char (lower_char c) :: nat) =
     (if 65 \<le> (of_char c :: nat) \<and> (of_char c :: nat) \<le> 90 then of_char c + 32 else of_char c)"
  by (simp add: lower_char_def Let_def)

lemma lower_char_eq_iff: "lower_char c = lower_char d \<longleftrightarrow> same_letter c d"
proof -
  have "lower_char c = lower_char d \<longleftrightarrow>
        (of_char (lower_char c) :: nat) = of_char (lower_char d)"
    by simp
  also have "\<dots> \<longleftrightarrow> same_letter c d"
    unfolding of_char_lower_char same_letter_def Let_def by auto
  finally show ?thesis .
qed

lemma ascii_lower_eq_iff: "ascii_lower a = ascii_lower n \<longleftrightarrow> list_all2 same_letter a n"
  unfolding ascii_lower_def
proof (induction a arbitrary: n)
  case Nil
  then show ?case by auto
next
  case (Cons x xs)
  then show ?case by (cases n) (simp_all add: lower_char_eq_iff)
qed

lemma same_letter_refl: "list_all2 same_letter a a"
  by (simp add: list_all2_same same_letter_def)

lemma allow_entry_iff:
  "(a = ui_id u \<or> Some a = ui_username u \<or>
      (truthy (ui_username u) \<and> lc a = lc (the (ui_username u))))
   \<longleftrightarrow> (a = ui_id u \<or>
        (\<exists>n. ui_username u = Some n \<and> (a = n \<or> n \<noteq> [] \<and> lc a = lc n)))"
proof (cases "ui_username u")
  case None
  then show ?thesis by (simp add: truthy_def)
next
  case (Some n)
  then show ?thesis by (auto simp: truthy_def)
qed

lemma isInConfigAllowlist_iff:
  "isInConfigAllowlist lc userInfo config \<longleftrightarrow>
     (\<exists>a \<in> set (the_allowFrom config).
        a = ui_id userInfo \<or>
        (\<exists>n. ui_username userInfo = Some n \<and> (a = n \<or> n \<noteq> [] \<and> lc a = lc n)))"
proof (cases "allowFrom config")
  case None
  then show ?thesis by (simp add: isInConfigAllowlist_def the_allowFrom_def)
next
  case (Some af)
  then show ?thesis
    unfolding isInConfigAllowlist_def the_allowFrom_def list_ex_iff allow_entry_iff
    by (cases af) simp_all
qed

lemma ascii_entry_iff:
  assumes "lc a = ascii_lower a" and "lc n = ascii_lower n"
  shows "(a = n \<or> n \<noteq> [] \<and> lc a = lc n) \<longleftrightarrow> list_all2 same_letter a n"
proof (cases "n = []")
  case True
  then show ?thesis by auto
next
  case False
  with assms show ?thesis
    using same_letter_refl[of n] by (auto simp: ascii_lower_eq_iff)
qed

lemma no_allowFrom_no_match:
  "the_allowFrom config = [] \<Longrightarrow> \<not> isInConfigAllowlist lc userInfo config"
  by (cases "allowFrom config") (simp_all add: isInConfigAllowlist_def the_allowFrom_def)

text \<open>
  C10. Whatever the runtime's \<open>toLowerCase\<close> is, an entry of the configured allowFrom
  list admits a user iff it is equal to the user's id, or the user has a username that is
  equal to the entry or, being non-empty, has the same \<open>toLowerCase\<close> image as the entry;
  so an absent or empty list admits nobody. When \<open>toLowerCase\<close> acts on ASCII strings as
  the runtime's does (\<open>ascii_lower\<close>) and the entries and the username are ASCII, this
  says: the entry is the id, character for character, or it is the username up to the
  case of its letters (\<open>same_letter\<close> at every position).
\<close>

theorem config_allowlist_matching:
  "(isInConfigAllowlist toLowerCase userInfo config \<longleftrightarrow>
      (\<exists>a \<in> set (the_allowFrom config).
         a = ui_id userInfo \<or>
         (\<exists>n. ui_username userInfo = Some n \<and>
              (a = n \<or> n \<noteq> [] \<and> toLowerCase a = toLowerCase n)))) \<and>
   ((\<forall>s. ascii s \<longrightarrow> toLowerCase s = ascii_lower s) \<and>
    list_all ascii (the_allowFrom config) \<and>
    (\<forall>n. ui_username userInfo = Some n \<longrightarrow> ascii n) \<longrightarrow>
      (isInConfigAllowlist toLowerCase userInfo config \<longleftrightarrow>
         (\<exists>a \<in> set (the_allowFrom config).
            a = ui_id userInfo \<or>
            (\<exists>n. ui_username userInfo = Some n \<and> list_all2 same_letter a n))))"
proof (intro conjI impI)
  show "isInConfigAllowlist toLowerCase userInfo config \<longleftrightarrow>
      (\<exists>a \<in> set (the_allowFrom config).
         a = ui_id userInfo \<or>
         (\<exists>n. ui_username userInfo = Some n \<and>
              (a = n \<or> n \<noteq> [] \<and> toLowerCase a = toLowerCase n)))"
    by (rule isInConfigAllowlist_iff)
next
  assume h: "(\<forall>s. ascii s \<longrightarrow> toLowerCase s = ascii_lower s) \<and>
    list_all ascii (the_allowFrom config) \<and>
    (\<forall>n. ui_username userInfo = Some n \<longrightarrow> ascii n)"
  have e: "(a = n \<or> n \<noteq> [] \<and> toLowerCase a = toLowerCase n) \<longleftrightarrow> list_all2 same_letter a n"
    if "a \<in> set (the_allowFrom config)" and "ui_username userInfo = Some n" for a n
  proof -
    from h that have "toLowerCase a = ascii_lower a" and "toLowerCase n = ascii_lower n"
      by (auto simp: list_all_iff)
    then show ?thesis by (rule ascii_entry_iff)
  qed
  show "isInConfigAllowlist toLowerCase userInfo config \<longleftrightarrow>
         (\<exists>a \<in> set (the_allowFrom config).
            a = ui_id userInfo \<or>
            (\<exists>n. ui_username userInfo = Some n \<and> list_all2 same_letter a n))"
    unfolding isInConfigAllowlist_iff using e by blast
qed

theorem config_allowlist_matching_witness:
  "list_all ascii (the_allowFrom (cfg_of ''pairing'' [''bOB''])) \<and>
   ui_username bob = Some ''Bob'' \<and> ascii ''Bob'' \<and>
   isInConfigAllowlist ascii_lower bob (cfg_of ''pairing'' [''bOB'']) \<and>
   \<not> isInConfigAllowlist ascii_lower bob (cfg_of ''pairing'' [''U42'']) \<and>
   isInConfigAllowlist ascii_lower bob (cfg_of ''pairing'' [''u42'']) \<and>
   \<not> isInConfigAllowlist ascii_lower bob (cfg_of ''pairing'' []) \<and>
   \<not> isInConfigAllowlist ascii_lower bob \<lparr>enabled = True, dmPolicy = ''pairing'', allowFrom = None\<rparr>"
proof -
  have u: "\<forall>n. ui_username bob = Some n \<longrightarrow> ascii n"
    by (simp add: bob_def ascii_def)
  have a1: "list_all ascii (the_allowFrom (cfg_of ''pairing'' [''bOB'']))"
    and a2: "list_all ascii (the_allowFrom (cfg_of ''pairing'' [''U42'']))"
    and a3: "list_all ascii (the_allowFrom (cfg_of ''pairing'' [''u42'']))"
    and a4: "list_all ascii (the_allowFrom (cfg_of ''pairing'' []))"
    and a5: "list_all ascii (the_allowFrom \<lparr>enabled = True, dmPolicy = ''pairing'', allowFrom = None\<rparr>)"
    by (simp_all add: the_allowFrom_def cfg_of_def ascii_def)
  have 1: "\<exists>a \<in> set (the_allowFrom (cfg_of ''pairing'' [''bOB''])).
             a = ui_id bob \<or> (\<exists>n. ui_username bob = Some n \<and> list_all2 same_letter a n)"
    by (simp add: the_allowFrom_def cfg_of_def bob_def same_letter_def)
  have 2: "\<not> (\<exists>a \<in> set (the_allowFrom (cfg_of ''pairing'' [''U42''])).
             a = ui_id bob \<or> (\<exists>n. ui_username bob = Some n \<and> list_all2 same_letter a n))"
    by (simp add: the_allowFrom_def cfg_of_def bob_def same_letter_def)
  have 3: "\<exists>a \<in> set (the_allowFrom (cfg_of ''pairing'' [''u42''])).
             a = ui_id bob \<or> (\<exists>n. ui_username bob = Some n \<and> list_all2 same_letter a n)"
    by (simp add: the_allowFrom_def cfg_of_def bob_def)
  have 4: "\<not> (\<exists>a \<in> set (the_allowFrom (cfg_of ''pairing'' [])).
             a = ui_id bob \<or> (\<exists>n. ui_username bob = Some n \<and> list_all2 same_letter a n))"
    by (simp add: the_allowFrom_def cfg_of_def)
  have 5: "\<not> (\<exists>a \<in> set (the_allowFrom \<lparr>enabled = True, dmPolicy = ''pairing'', allowFrom = None\<rparr>).
             a = ui_id bob \<or> (\<exists>n. ui_username bob = Some n \<and> list_all2 same_letter a n))"
    by (simp add: the_allowFrom_def)
  have r1: "isInConfigAllowlist ascii_lower bob (cfg_of ''pairing'' [''bOB''])"
    using config_allowlist_matching[of ascii_lower bob "cfg_of ''pairing'' [''bOB'']"] u a1 1
    by blast
  have r2: "\<not> isInConfigAllowlist ascii_lower bob (cfg_of ''pairing'' [''U42''])"
    using config_allowlist_matching[of ascii_lower bob "cfg_of ''pairing'' [''U42'']"] u a2 2
    by blast
  have r3: "isInConfigAllowlist ascii_lower bob (cfg_of ''pairing'' [''u42''])"
    using config_allowlist_matching[of ascii_lower bob "cfg_of ''pairing'' [''u42'']"] u a3 3
    by blast
  have r4: "\<not> isInConfigAllowlist ascii_lower bob (cfg_of ''pairing'' [])"
    using config_allowlist_matching[of ascii_lower bob "cfg_of ''pairing'' []"] u a4 4
    by blast
  have r5: "\<not> isInConfigAllowlist ascii_lower bob
                \<lparr>enabled = True, dmPolicy = ''pairing'', allowFrom = None\<rparr>"
    using config_allowlist_matching[of ascii_lower bob
        "\<lparr>enabled = True, dmPolicy = ''pairing'', allowFrom = None\<rparr>"] u a5 5
    by blast
  have n: "ui_username bob = Some ''Bob'' \<and> ascii ''Bob''"
    by (simp add: bob_def ascii_def)
  from n a1 r1 r2 r3 r4 r5 show ?thesis by simp
qed

text \<open>
  C5. For an enabled channel with policy \<open>open\<close> the decision is Allowed whatever the
  allow-set holds; for an enabled channel with policy \<open>allowlist\<close>, an empty persisted
  allow-set and an empty (or absent) configured allowFrom list it is Denied; for a
  disabled channel it is Denied whatever the policy. This holds for every behaviour of
  the runtime's \<open>toLowerCase\<close>.
\<close>

theorem access_policy_table:
  "(enabled cfg \<and> dmPolicy cfg = ''open'' \<longrightarrow>
      isAllowed toLowerCase db chatKey userInfo (Some cfg) = \<lparr>allowed = True, reason = None\<rparr>) \<and>
   (enabled cfg \<and> dmPolicy cfg = ''allowlist'' \<and> allowlist db = [] \<and> the_allowFrom cfg = [] \<longrightarrow>
      isAllowed toLowerCase db chatKey userInfo (Some cfg) =
        \<lparr>allowed = False, reason = Some ''Not in allowlist''\<rparr>) \<and>
   (\<not> enabled cfg \<longrightarrow>
      isAllowed toLowerCase db chatKey userInfo (Some cfg) =
        \<lparr>allowed = False, reason = Some ''Channel is disabled''\<rparr>)"
proof (intro conjI impI)
  assume "enabled cfg \<and> dmPolicy cfg = ''open''"
  then show "isAllowed toLowerCase db chatKey userInfo (Some cfg) =
      \<lparr>allowed = True, reason = None\<rparr>"
    by (simp add: isAllowed_def)
next
  assume a: "enabled cfg \<and> dmPolicy cfg = ''allowlist'' \<and> allowlist db = [] \<and> the_allowFrom cfg = []"
  then have "\<not> isInConfigAllowlist toLowerCase userInfo cfg"
    by (simp add: no_allowFrom_no_match)
  with a show "isAllowed toLowerCase db chatKey userInfo (Some cfg) =
      \<lparr>allowed = False, reason = Some ''Not in allowlist''\<rparr>"
    by (simp add: isAllowed_def db_isAllowed_def)
next
  assume "\<not> enabled cfg"
  then show "isAllowed toLowerCase db chatKey userInfo (Some cfg) =
      \<lparr>allowed = False, reason = Some ''Channel is disabled''\<rparr>"
    by (simp add: isAllowed_def)
qed

theorem access_policy_table_witness:
  "isAllowed ascii_lower issued_db ''telegram:u42'' bob (Some (cfg_of ''open'' [])) =
     \<lparr>allowed = True, reason = None\<rparr> \<and>
   isAllowed ascii_lower empty_db ''telegram:u42'' bob (Some (cfg_of ''allowlist'' [])) =
     \<lparr>allowed = False, reason = Some ''Not in allowlist''\<rparr> \<and>
   isAllowed ascii_lower empty_db ''telegram:u42'' bob
       (Some ((cfg_of ''open'' [])\<lparr>enabled := False\<rparr>)) =
     \<lparr>allowed = False, reason = Some ''Channel is disabled''\<rparr>"
  using access_policy_table[of "cfg_of ''open'' []" ascii_lower issued_db "''telegram:u42''" bob]
    access_policy_table[of "cfg_of ''allowlist'' []" ascii_lower empty_db "''telegram:u42''" bob]
    access_policy_table[of "(cfg_of ''open'' [])\<lparr>enabled := False\<rparr>" ascii_lower empty_db
      "''telegram:u42''" bob]
  by (simp add: cfg_of_def empty_db_def the_allowFrom_def)

section \<open>The session upsert\<close>

lemma find_map_update:
  assumes "find P xs = Some row" and "\<And>r. P (f r) = P r"
  shows "find P (map (\<lambda>r. if P r then f r else r) xs) = Some (f row)"
  using assms(1)
proof (induction xs)
  case Nil
  then show ?case by simp
next
  case (Cons x xs)
  then show ?case by (cases "P x") (simp_all add: assms(2))
qed

lemma find_Some_ex: "find P xs = Some r \<Longrightarrow> list_ex P xs"
  by (auto simp: find_Some_iff list_ex_iff)

lemma find_snoc:
  "find P (xs @ [y]) =
     (case find P xs of None \<Rightarrow> (if P y then Some y else None) | Some x \<Rightarrow> Some x)"
  by (induction xs) simp_all

text \<open>
  C9. When a session row exists on \<open>(chat_key, session_name)\<close>, \<open>saveSession\<close> on that
  key leaves a row that differs from it in \<open>sdk_session_id\<close> and \<open>last_active\<close> only:
  id, agent id, workspace, creation time and status are kept, whatever agent id and
  workspace the call supplies.
\<close>

theorem saveSession_upsert_frame:
  assumes "getSession db chatKey sessionName = Some row"
  shows "getSession (saveSession db now chatKey sdkSessionId agentId' sessionName workspace)
           chatKey sessionName
         = Some (row\<lparr>si_sdkSessionId := sdkSessionId, si_lastActive := now\<rparr>)"
proof -
  let ?P = "session_at chatKey (or_main sessionName)"
  let ?f = "\<lambda>r. r\<lparr>si_sdkSessionId := sdkSessionId, si_lastActive := now\<rparr>"
  from assms have f: "find ?P (sessions db) = Some row" by (simp add: getSession_def)
  then have ex: "list_ex ?P (sessions db)" by (rule find_Some_ex)
  have "find ?P (map (\<lambda>r. if ?P r then ?f r else r) (sessions db)) = Some (?f row)"
    by (rule find_map_update[OF f]) (simp add: session_at_def)
  with ex show ?thesis by (simp add: getSession_def saveSession_def Let_def)
qed

theorem saveSession_upsert_frame_witness:
  "getSession placeholder_db ''telegram:u42'' None = Some placeholder_row \<and>
   getSession (saveSession placeholder_db 2000 ''telegram:u42'' ''sdk-1'' ''other'' None (Some ''/else''))
     ''telegram:u42'' None =
     Some \<lparr>si_id = 1, si_chatKey = ''telegram:u42'', si_sessionName = ''main'',
           si_sdkSessionId = ''sdk-1'', si_workspace = Some ''/work'', si_agentId = ''main'',
           si_createdAt = 1000, si_lastActive = 2000, si_status = ''active''\<rparr>"
proof -
  have h: "getSession placeholder_db ''telegram:u42'' None = Some placeholder_row"
    by (simp add: getSession_def placeholder_db_def placeholder_row_def empty_db_def
          session_at_def or_main_def)
  from saveSession_upsert_frame[OF h, of 2000 "''sdk-1''" "''other''" "Some ''/else''"] h
  show ?thesis by (simp add: placeholder_row_def)
qed

section \<open>Pairing ledger\<close>

lemma hex_digit_upper: "upper_char (upper_char (hex_digit n)) = upper_char (hex_digit n)"
proof -
  have "n mod 16 \<in> {0..<16}" by simp
  then have "n mod 16 \<in> set [0,1,2,3,4,5,6,7,8,9,10,11,12,13,14,15]"
    by (simp add: atLeastLessThan_def) arith
  then show ?thesis
    unfolding hex_digit_def
    by (auto simp: upper_char_def nth_Cons')
qed

lemma toUpperCase_hex:
  "toUpperCase (toUpperCase (hex_of_bytes bs)) = toUpperCase (hex_of_bytes bs)"
  by (induction bs) (simp_all add: toUpperCase_def hex_of_bytes_def hex_digit_upper)

lemma toUpperCase_take: "toUpperCase (take n s) = take n (toUpperCase s)"
  by (simp add: toUpperCase_def take_map)

text \<open>Issued codes are upper-case: upper-casing one again leaves it as it is.\<close>

lemma generateCode_upper:
  assumes "generateCode db now rnd chatKey userInfo ttl = Inr (code, db')"
  shows "toUpperCase code = code"
proof -
  from assms have "code = take CODE_LENGTH (toUpperCase (hex_of_bytes rnd))"
    by (auto simp: generateCode_def Let_def split: sum.splits)
  then show ?thesis by (simp add: toUpperCase_take toUpperCase_hex)
qed

lemma generateCode_row:
  assumes "generateCode db now rnd chatKey userInfo ttl = Inr (code, db')"
  shows "\<exists>req. getPairingRequest db' code = Some req \<and> pr_expiresAt req = now + ttl \<and>
               pr_chatKey req = chatKey"
proof -
  let ?db1 = "snd (cleanupExpiredPairingRequests db now)"
  from assms have s: "savePairingRequest ?db1 now code chatKey userInfo ttl = Inr db'"
    by (auto simp: generateCode_def Let_def split: sum.splits)
  then have nex: "\<not> list_ex (\<lambda>row. pr_code row = code) (pairing_requests ?db1)"
    by (auto simp: savePairingRequest_def split: if_splits)
  then have "find (\<lambda>row. pr_code row = code) (pairing_requests ?db1) = None"
    by (simp add: find_None_iff list_ex_iff)
  with s nex show ?thesis
    by (auto simp: savePairingRequest_def getPairingRequest_def find_snoc split: if_splits)
qed

lemma deleted_gone: "getPairingRequest (deletePairingRequest db code) code = None"
  by (simp add: getPairingRequest_def deletePairingRequest_def find_None_iff)

lemma set_listPending:
  "set (listPendingPairingRequests db now) =
     {r \<in> set (pairing_requests db). iso_less now (pr_expiresAt r)}"
  by (auto simp: listPendingPairingRequests_def order_by_desc_def)

text \<open>
  A code given to \<open>approve\<close> or \<open>reject\<close> in the spelling it was issued in is single-use.
\<close>

lemma approve_exact_single_use:
  assumes "toUpperCase code = code"
  shows "fst (approve (snd (approve db now code)) later code) =
           Failure ''Invalid or expired pairing code''"
proof -
  have "getPairingRequest (snd (approve db now code)) code = None"
    using assms
    by (cases "getPairingRequest db code") (simp_all add: approve_def Let_def deleted_gone)
  with assms show ?thesis by (simp add: approve_def)
qed

lemma reject_exact_single_use:
  assumes "toUpperCase code = code"
  shows "fst (approve (snd (reject db code)) later code) =
           Failure ''Invalid or expired pairing code''"
proof -
  have "getPairingRequest (snd (reject db code)) code = None"
    using assms
    by (cases "getPairingRequest db code") (simp_all add: reject_def deleted_gone)
  with assms show ?thesis by (simp add: approve_def)
qed

lemma issued_db_generated:
  "generateCode empty_db 1000 [CHR 0xAB, CHR 0x12, CHR 0xCD] ''telegram:u42'' bob 3600000 =
     Inr (''AB12CD'', issued_db)"
  by code_simp

lemma zero_ttl_db_generated:
  "generateCode empty_db 1000 [CHR 0xAB, CHR 0x12, CHR 0xCD] ''telegram:u42'' bob 0 =
     Inr (''AB12CD'', zero_ttl_db)"
  by code_simp

text \<open>
  C3 (the code at the failing input). The request \<open>AB12CD\<close> is pending and the operator
  names it as \<open>ab12cd\<close>: \<open>approve\<close> finds the row under the upper-cased code and
  succeeds, but deletes under the spelling it was given, so the row stays and a second
  \<open>approve\<close> succeeds again; after \<open>reject\<close> returns true, \<open>approve\<close> still succeeds.
\<close>

theorem approve_lowercase_replay:
  "getPairingRequest issued_db ''AB12CD'' \<noteq> None \<and>
   toUpperCase ''ab12cd'' = ''AB12CD'' \<and>
   fst (approve issued_db 2000 ''ab12cd'') = Success ''telegram:u42'' bob \<and>
   getPairingRequest (snd (approve issued_db 2000 ''ab12cd'')) ''AB12CD'' \<noteq> None \<and>
   fst (approve (snd (approve issued_db 2000 ''ab12cd'')) 3000 ''ab12cd'') =
     Success ''telegram:u42'' bob \<and>
   fst (reject issued_db ''ab12cd'') = True \<and>
   fst (approve (snd (reject issued_db ''ab12cd'')) 3000 ''ab12cd'') =
     Success ''telegram:u42'' bob"
  by code_simp

text \<open>
  Given in the spelling it was issued in, a code whose row is past its expiry time makes
  \<open>approve\<close> fail with \<open>Pairing code has expired\<close> and delete the row; no later
  \<open>listPending\<close> contains the code; and, while the clock reads a four-digit year,
  \<open>listPending\<close> returns only rows that expire after the time of the call.
\<close>

lemma approve_expired_issued_spelling:
  assumes "getPairingRequest db code = Some request" and "toUpperCase code = code"
    and "pr_expiresAt request < now"
  shows "approve db now code =
           (Failure ''Pairing code has expired'', deletePairingRequest db code) \<and>
         getPairingRequest (snd (approve db now code)) code = None \<and>
         (\<forall>later. code \<notin> pr_code ` set (listPending (snd (approve db now code)) later)) \<and>
         (\<forall>db' t. t < Y10K \<longrightarrow> (\<forall>r \<in> set (listPending db' t). pr_expiresAt r > t))"
proof -
  have a: "approve db now code =
             (Failure ''Pairing code has expired'', deletePairingRequest db code)"
    using assms by (simp add: approve_def)
  have b: "\<forall>later. code \<notin> pr_code ` set (listPending (deletePairingRequest db code) later)"
    by (auto simp: listPending_def set_listPending deletePairingRequest_def)
  have c: "\<forall>db' t. t < Y10K \<longrightarrow> (\<forall>r \<in> set (listPending db' t). pr_expiresAt r > t)"
    by (auto simp: listPending_def set_listPending iso_less_def split: if_splits)
  from a b c show ?thesis by (simp add: deleted_gone)
qed

lemma approve_expired_issued_spelling_example:
  "generateCode empty_db 1000 [CHR 0xAB, CHR 0x12, CHR 0xCD] ''telegram:u42'' bob 0 =
     Inr (''AB12CD'', zero_ttl_db) \<and>
   approve zero_ttl_db 1001 ''AB12CD'' = (Failure ''Pairing code has expired'', empty_db) \<and>
   listPending (snd (approve zero_ttl_db 1001 ''AB12CD'')) 1001 = []"
proof -
  have h1: "getPairingRequest zero_ttl_db ''AB12CD'' = Some zero_ttl_request"
    by (simp add: getPairingRequest_def zero_ttl_db_def zero_ttl_request_def)
  have h2: "toUpperCase ''AB12CD'' = ''AB12CD''"
    by (simp add: toUpperCase_def upper_char_def)
  have h3: "pr_expiresAt zero_ttl_request < 1001"
    by (simp add: zero_ttl_request_def)
  have d: "deletePairingRequest zero_ttl_db ''AB12CD'' = empty_db"
    by (simp add: deletePairingRequest_def zero_ttl_db_def zero_ttl_request_def empty_db_def)
  have l: "listPending empty_db 1001 = []"
    by (simp add: listPending_def listPendingPairingRequests_def order_by_desc_def empty_db_def)
  from approve_expired_issued_spelling[OF h1 h2 h3] d l zero_ttl_db_generated
  show ?thesis by simp
qed

text \<open>
  C8 (the code at the failing input). The request \<open>AB12CD\<close> was issued at time 1000
  with ttl 0 and the operator approves it at time 1001 as \<open>ab12cd\<close>: \<open>approve\<close> finds
  the row under the upper-cased code and fails with \<open>Pairing code has expired\<close>, but
  deletes under the spelling it was given, so the store is unchanged and the expired row
  is still there.
\<close>

theorem approve_expired_lowercase_keeps_row:
  "generateCode empty_db 1000 [CHR 0xAB, CHR 0x12, CHR 0xCD] ''telegram:u42'' bob 0 =
     Inr (''AB12CD'', zero_ttl_db) \<and>
   toUpperCase ''ab12cd'' = ''AB12CD'' \<and>
   getPairingRequest zero_ttl_db ''AB12CD'' = Some zero_ttl_request \<and>
   pr_expiresAt zero_ttl_request < 1001 \<and>
   approve zero_ttl_db 1001 ''ab12cd'' = (Failure ''Pairing code has expired'', zero_ttl_db) \<and>
   getPairingRequest (snd (approve zero_ttl_db 1001 ''ab12cd'')) ''AB12CD'' =
     Some zero_ttl_request"
  by code_simp

section \<open>Turns of the session manager\<close>

lemma first_chunk_not_error: "first_chunk bs = Some c \<Longrightarrow> \<not> is_error c"
  by (induction bs rule: first_chunk.induct) auto

lemma processSDKMessage_not_error: "processSDKMessage event = Some c \<Longrightarrow> \<not> is_error c"
  by (auto simp: processSDKMessage_def first_chunk_not_error
           split: SDKMessage.splits option.splits)

lemma streamEvents_no_error: "c \<in> set (fst (streamEvents es sid)) \<Longrightarrow> \<not> is_error c"
proof (induction es arbitrary: sid)
  case Nil
  then show ?case by simp
next
  case (Cons e es)
  then show ?case
    by (cases "processSDKMessage e")
       (auto simp: Let_def processSDKMessage_not_error)
qed

lemma streamEvents_last_result:
  "snd (streamEvents es sid) = (case last_result es of None \<Rightarrow> sid | Some s \<Rightarrow> Some s)"
proof (induction es arbitrary: sid)
  case Nil
  then show ?case by simp
next
  case (Cons e es)
  then show ?case
    by (cases e; cases "last_result es") (simp_all add: Let_def)
qed

lemma sendMessage_Chosen:
  assumes "chooseAgent (sm_router sm) message options = Chosen agent"
  shows "sendMessage sm now query message options =
     (let sessionName = target_session sm message options;
          resumeSessionId =
            map_option si_sdkSessionId (getSession (sm_db sm) (msg_chatKey message) (Some sessionName));
          queryOptions = buildQueryOptions agent message resumeSessionId;
          response = query (msg_text message) queryOptions;
          streamed = streamEvents (events response) resumeSessionId
      in case raised response of
           Some errorMessage \<Rightarrow>
             \<lparr>chunks = fst streamed @ [ErrorChunk errorMessage], sm_after = sm,
              port_calls = [(msg_text message, queryOptions)], thrown = None\<rparr>
         | None \<Rightarrow>
             \<lparr>chunks = fst streamed @ [DoneChunk],
              sm_after =
                (if truthy (snd streamed)
                 then sm\<lparr>sm_db := saveSession (sm_db sm) now (msg_chatKey message)
                                     (the (snd streamed)) (ac_id agent) (Some sessionName)
                                     (Some (ac_workspace agent))\<rparr>
                 else sm),
              port_calls = [(msg_text message, queryOptions)], thrown = None\<rparr>)"
  using assms by (simp add: sendMessage_def target_session_def Let_def)

lemma sendMessage_not_Chosen:
  assumes "\<forall>agent. chooseAgent (sm_router sm) message options \<noteq> Chosen agent"
  shows "port_calls (sendMessage sm now query message options) = []"
  using assms
  by (cases "chooseAgent (sm_router sm) message options") (simp_all add: sendMessage_def)

text \<open>
  C7. In a turn in which the SDK is called and raises an error, the chunks are those of
  the events delivered before the error followed by one \<open>error\<close> chunk: it is the last
  chunk and the only \<open>error\<close> chunk; the session manager, and with it every stored
  session row, is as it was before the turn.
\<close>

theorem execution_error_single_chunk:
  assumes "port_calls (sendMessage sm now query message options) = [(prompt, opts)]"
    and "raised (query prompt opts) = Some err"
  shows "last (chunks (sendMessage sm now query message options)) = ErrorChunk err \<and>
         filter is_error (chunks (sendMessage sm now query message options)) = [ErrorChunk err] \<and>
         sm_after (sendMessage sm now query message options) = sm \<and>
         thrown (sendMessage sm now query message options) = None \<and>
         (\<forall>chatKey sessionName.
            getSession (sm_db (sm_after (sendMessage sm now query message options)))
              chatKey sessionName = getSession (sm_db sm) chatKey sessionName)"
proof -
  obtain agent where ch: "chooseAgent (sm_router sm) message options = Chosen agent"
    using assms(1) sendMessage_not_Chosen[of sm message options now query] by fastforce
  let ?name = "target_session sm message options"
  let ?resume = "map_option si_sdkSessionId (getSession (sm_db sm) (msg_chatKey message) (Some ?name))"
  let ?q = "buildQueryOptions agent message ?resume"
  have calls: "port_calls (sendMessage sm now query message options) = [(msg_text message, ?q)]"
    unfolding sendMessage_Chosen[OF ch] by (simp add: Let_def split: option.splits)
  with assms have r: "raised (query (msg_text message) ?q) = Some err" by simp
  let ?cs = "fst (streamEvents (events (query (msg_text message) ?q)) ?resume)"
  have res: "sendMessage sm now query message options =
      \<lparr>chunks = ?cs @ [ErrorChunk err], sm_after = sm,
       port_calls = [(msg_text message, ?q)], thrown = None\<rparr>"
    unfolding sendMessage_Chosen[OF ch] using r by (simp add: Let_def)
  have "filter is_error ?cs = []"
    by (simp add: filter_empty_conv streamEvents_no_error)
  then show ?thesis unfolding res by simp
qed

theorem execution_error_single_chunk_witness:
  "port_calls (sendMessage fresh_manager 2000 failing_port hello no_options) =
     [(''hello'', buildQueryOptions main_agent hello (Some ''ccb-1000-k3j9xa''))] \<and>
   raised (failing_port ''hello'' (buildQueryOptions main_agent hello (Some ''ccb-1000-k3j9xa''))) =
     Some ''boom'' \<and>
   chunks (sendMessage fresh_manager 2000 failing_port hello no_options) =
     [TextChunk ''partial'', ErrorChunk ''boom''] \<and>
   sm_after (sendMessage fresh_manager 2000 failing_port hello no_options) = fresh_manager"
proof -
  have ch: "chooseAgent (sm_router fresh_manager) hello no_options = Chosen main_agent"
    by (simp add: chooseAgent_def no_options_def truthy_def fresh_manager_def routeMessage_def
          drift_router_def drift_config_def hello_def findAgentId_def matchesBinding_def
          getAgent_def)
  have nm: "target_session fresh_manager hello no_options = ''main''"
    by (simp add: target_session_def no_options_def getActiveSessionName_def fresh_manager_def
          placeholder_db_def empty_db_def truthy_def)
  have gs: "getSession (sm_db fresh_manager) (msg_chatKey hello) (Some ''main'') = Some placeholder_row"
    by (simp add: getSession_def fresh_manager_def placeholder_db_def placeholder_row_def
          empty_db_def session_at_def or_main_def hello_def)
  have c: "port_calls (sendMessage fresh_manager 2000 failing_port hello no_options) =
     [(''hello'', buildQueryOptions main_agent hello (Some ''ccb-1000-k3j9xa''))]"
    unfolding sendMessage_Chosen[OF ch] nm
    by (simp add: gs Let_def failing_port_def) (simp add: placeholder_row_def hello_def)
  have r: "raised (failing_port ''hello'' (buildQueryOptions main_agent hello (Some ''ccb-1000-k3j9xa''))) =
     Some ''boom''"
    by (simp add: failing_port_def)
  have k: "chunks (sendMessage fresh_manager 2000 failing_port hello no_options) =
     [TextChunk ''partial'', ErrorChunk ''boom'']"
    unfolding sendMessage_Chosen[OF ch] nm
    by (simp add: gs Let_def failing_port_def processSDKMessage_def)
  from execution_error_single_chunk[OF c r] c r k show ?thesis by simp
qed


lemma startsWith_placeholder: "startsWith (placeholderId now rnd) ''ccb-''"
  by (simp add: startsWith_def placeholderId_def)

lemma placeholder_nonempty: "placeholderId now rnd \<noteq> []"
  by (simp add: placeholderId_def)

lemma getSession_saveSession:
  "\<exists>row. getSession (saveSession db now chatKey sid aid sessionName workspace) chatKey sessionName
           = Some row \<and> si_sdkSessionId row = sid"
proof (cases "list_ex (session_at chatKey (or_main sessionName)) (sessions db)")
  case True
  let ?P = "session_at chatKey (or_main sessionName)"
  let ?f = "\<lambda>r. r\<lparr>si_sdkSessionId := sid, si_lastActive := now\<rparr>"
  from True obtain row0 where f: "find ?P (sessions db) = Some row0"
    by (cases "find ?P (sessions db)") (auto simp: find_None_iff list_ex_iff)
  have "find ?P (map (\<lambda>r. if ?P r then ?f r else r) (sessions db)) = Some (?f row0)"
    by (rule find_map_update[OF f]) (simp add: session_at_def)
  with True show ?thesis by (simp add: getSession_def saveSession_def Let_def)
next
  case False
  then have "find (session_at chatKey (or_main sessionName)) (sessions db) = None"
    by (simp add: find_None_iff list_ex_iff)
  with False show ?thesis
    by (simp add: getSession_def saveSession_def Let_def find_snoc session_at_def)
qed

lemma getActiveSessionName_saveSession:
  "getActiveSessionName (saveSession db now chatKey sid aid sessionName workspace) k =
   getActiveSessionName db k"
  by (simp add: getActiveSessionName_def saveSession_def Let_def)

lemma handles_nonempty_empty_db: "handles_nonempty empty_db"
  by (simp add: handles_nonempty_def empty_db_def)

lemma handles_nonempty_saveSession:
  "handles_nonempty db \<Longrightarrow> sid \<noteq> [] \<Longrightarrow>
   handles_nonempty (saveSession db now chatKey sid aid sessionName workspace)"
  by (auto simp: handles_nonempty_def saveSession_def Let_def list_all_iff)

lemma handles_nonempty_sendMessage:
  assumes "handles_nonempty (sm_db sm)"
  shows "handles_nonempty (sm_db (sm_after (sendMessage sm now query message options)))"
proof (cases "chooseAgent (sm_router sm) message options")
  case (Chosen agent)
  show ?thesis
    unfolding sendMessage_Chosen[OF Chosen]
    using assms
    by (auto simp: Let_def truthy_def handles_nonempty_saveSession split: option.splits)
next
  case (UnknownAgent a)
  with assms show ?thesis by (simp add: sendMessage_def)
next
  case (RouteFailed e)
  with assms show ?thesis by (simp add: sendMessage_def)
qed

lemma handles_nonempty_createNewSession:
  "handles_nonempty (sm_db sm) \<Longrightarrow>
   handles_nonempty (sm_db (snd (createNewSession sm now rnd chatKey agentConfig sessionName)))"
  by (simp add: createNewSession_def Let_def handles_nonempty_saveSession placeholder_nonempty)

lemma handles_nonempty_updateSessionActivity:
  "handles_nonempty db \<Longrightarrow> handles_nonempty (updateSessionActivity db now chatKey sessionName)"
  by (auto simp: handles_nonempty_def updateSessionActivity_def list_all_iff)

lemma handles_nonempty_getOrCreateSession:
  "handles_nonempty (sm_db sm) \<Longrightarrow>
   handles_nonempty (sm_db (snd (getOrCreateSession sm now rnd chatKey agentConfig sessionName)))"
  by (auto simp: getOrCreateSession_def Let_def handles_nonempty_updateSessionActivity
        handles_nonempty_createNewSession split: option.splits)

lemma handles_nonempty_createNamedSession:
  "handles_nonempty (sm_db sm) \<Longrightarrow>
   createNamedSession sm now rnd chatKey name aid = Inr sm' \<Longrightarrow> handles_nonempty (sm_db sm')"
  by (auto simp: createNamedSession_def setActiveSession_def handles_nonempty_def
        saveSession_def Let_def list_all_iff placeholder_nonempty split: option.splits if_splits)

lemma handles_nonempty_getSession:
  "handles_nonempty db \<Longrightarrow> getSession db chatKey sessionName = Some row \<Longrightarrow>
   si_sdkSessionId row \<noteq> []"
  by (auto simp: handles_nonempty_def getSession_def list_all_iff find_Some_iff)

lemma q_resume_buildQueryOptions:
  "q_resume (buildQueryOptions agent message resumeSessionId) =
     (if truthy resumeSessionId \<and> \<not> startsWith (the resumeSessionId) ''ccb-''
      then resumeSessionId else None)"
  by (simp add: buildQueryOptions_def Let_def)

lemma port_calls_Chosen:
  assumes "chooseAgent (sm_router sm) message options = Chosen agent"
  shows "port_calls (sendMessage sm now query message options) =
           [(msg_text message, turn_options sm message options agent)]"
  unfolding sendMessage_Chosen[OF assms]
  by (simp add: Let_def turn_options_def split: option.splits)

lemma never_resumes_placeholder:
  assumes "call \<in> set (port_calls (sendMessage sm now query message options))"
    and "q_resume (snd call) = Some h"
  shows "\<not> startsWith h ''ccb-''"
proof (cases "chooseAgent (sm_router sm) message options")
  case (Chosen agent)
  with assms show ?thesis
    by (auto simp: port_calls_Chosen turn_options_def q_resume_buildQueryOptions split: if_splits)
next
  case (UnknownAgent a)
  with assms show ?thesis by (simp add: sendMessage_def)
next
  case (RouteFailed e)
  with assms show ?thesis by (simp add: sendMessage_def)
qed

lemma resume_iff_real_handle:
  assumes "handles_nonempty (sm_db sm)"
  shows "q_resume (turn_options sm message options agent) = Some h \<longleftrightarrow>
         (\<exists>row. getSession (sm_db sm) (msg_chatKey message)
                   (Some (target_session sm message options)) = Some row \<and>
                si_sdkSessionId row = h \<and> \<not> startsWith h ''ccb-'')"
proof (cases "getSession (sm_db sm) (msg_chatKey message) (Some (target_session sm message options))")
  case None
  then show ?thesis by (simp add: turn_options_def q_resume_buildQueryOptions truthy_def)
next
  case (Some row)
  with assms have "si_sdkSessionId row \<noteq> []" by (rule handles_nonempty_getSession)
  with Some show ?thesis
    by (auto simp: turn_options_def q_resume_buildQueryOptions truthy_def)
qed

lemma completed_turn_records:
  assumes ch: "chooseAgent (sm_router sm) message options = Chosen agent"
    and ok: "raised (turn_response sm query message options agent) = None"
    and res: "last_result (events (turn_response sm query message options agent)) = Some h"
    and ne: "h \<noteq> []"
  shows "sm_after (sendMessage sm now query message options) =
           sm\<lparr>sm_db := saveSession (sm_db sm) now (msg_chatKey message) h (ac_id agent)
                         (Some (target_session sm message options)) (Some (ac_workspace agent))\<rparr>"
  unfolding sendMessage_Chosen[OF ch]
  using ok res ne
  by (simp add: Let_def turn_response_def turn_options_def streamEvents_last_result truthy_def)

lemma next_turn_resumes:
  assumes ch: "chooseAgent (sm_router sm) message options = Chosen agent"
    and ok: "raised (turn_response sm query message options agent) = None"
    and res: "last_result (events (turn_response sm query message options agent)) = Some h"
    and ne: "h \<noteq> []" and real: "\<not> startsWith h ''ccb-''"
    and key: "msg_chatKey message' = msg_chatKey message"
    and name: "o_sessionName options' = o_sessionName options"
  shows "q_resume (turn_options (sm_after (sendMessage sm now query message options))
                     message' options' agent') = Some h"
proof -
  let ?name = "target_session sm message options"
  let ?db' = "saveSession (sm_db sm) now (msg_chatKey message) h (ac_id agent)
                (Some ?name) (Some (ac_workspace agent))"
  have after: "sm_after (sendMessage sm now query message options) = sm\<lparr>sm_db := ?db'\<rparr>"
    by (rule completed_turn_records[OF ch ok res ne])
  have tn: "target_session (sm\<lparr>sm_db := ?db'\<rparr>) message' options' = ?name"
    using key name
    by (simp add: target_session_def getActiveSessionName_saveSession split: option.splits)
  obtain row where "getSession ?db' (msg_chatKey message) (Some ?name) = Some row"
    and "si_sdkSessionId row = h"
    using getSession_saveSession by blast
  then show ?thesis
    unfolding after turn_options_def tn
    using ne real key by (simp add: q_resume_buildQueryOptions truthy_def)
qed

lemma createNewSession_stores_placeholder:
  "\<exists>row. getSession (sm_db (snd (createNewSession sm now rnd chatKey agentConfig sessionName)))
            chatKey (Some sessionName) = Some row \<and>
         startsWith (si_sdkSessionId row) ''ccb-''"
proof -
  obtain row where
    "getSession (saveSession (sm_db sm) now chatKey (placeholderId now rnd) (ac_id agentConfig)
                   (Some sessionName) (Some (ac_workspace agentConfig)))
       chatKey (Some sessionName) = Some row"
    and "si_sdkSessionId row = placeholderId now rnd"
    using getSession_saveSession by blast
  then show ?thesis
    by (simp add: createNewSession_def Let_def startsWith_placeholder)
qed

text \<open>
  C2. No call that \<open>sendMessage\<close> makes to the SDK carries a resume token with the
  placeholder prefix \<open>ccb-\<close>. When the stored handles are non-empty (as they are in every
  store the session manager has written) and an agent is chosen, the SDK is called once,
  and the call resumes with \<open>h\<close> exactly when the row of the addressed session exists and
  its handle is \<open>h\<close> and not a placeholder; and when the turn completes after a
  \<open>result\<close> event with a handle \<open>h'\<close> that is non-empty and not a placeholder, the next
  turn on the same chat key and session name resumes with \<open>h'\<close>. The row written by
  \<open>createNewSession\<close> holds a placeholder.
\<close>

theorem resume_only_real_handle:
  "(\<forall>call \<in> set (port_calls (sendMessage sm now query message options)).
      \<forall>h. q_resume (snd call) = Some h \<longrightarrow> \<not> startsWith h ''ccb-'') \<and>
   (handles_nonempty (sm_db sm) \<and> chooseAgent (sm_router sm) message options = Chosen agent \<longrightarrow>
      port_calls (sendMessage sm now query message options) =
        [(msg_text message, turn_options sm message options agent)] \<and>
      (\<forall>h. q_resume (turn_options sm message options agent) = Some h \<longleftrightarrow>
           (\<exists>row. getSession (sm_db sm) (msg_chatKey message)
                     (Some (target_session sm message options)) = Some row \<and>
                  si_sdkSessionId row = h \<and> \<not> startsWith h ''ccb-'')) \<and>
      (\<forall>h'. raised (turn_response sm query message options agent) = None \<and>
            last_result (events (turn_response sm query message options agent)) = Some h' \<and>
            h' \<noteq> [] \<and> \<not> startsWith h' ''ccb-'' \<and>
            chooseAgent (sm_router sm) message' options' = Chosen agent' \<and>
            msg_chatKey message' = msg_chatKey message \<and>
            o_sessionName options' = o_sessionName options \<longrightarrow>
            port_calls (sendMessage (sm_after (sendMessage sm now query message options))
                          now' query' message' options') =
              [(msg_text message',
                turn_options (sm_after (sendMessage sm now query message options))
                  message' options' agent')] \<and>
            q_resume (turn_options (sm_after (sendMessage sm now query message options))
                        message' options' agent') = Some h')) \<and>
   (\<exists>row. getSession (sm_db (snd (createNewSession sm now rnd chatKey agentConfig sessionName)))
             chatKey (Some sessionName) = Some row \<and>
          startsWith (si_sdkSessionId row) ''ccb-'')"
proof (intro conjI impI allI ballI)
  fix call h
  assume "call \<in> set (port_calls (sendMessage sm now query message options))"
    and "q_resume (snd call) = Some h"
  then show "\<not> startsWith h ''ccb-''" by (rule never_resumes_placeholder)
next
  assume "handles_nonempty (sm_db sm) \<and> chooseAgent (sm_router sm) message options = Chosen agent"
  then show "port_calls (sendMessage sm now query message options) =
        [(msg_text message, turn_options sm message options agent)]"
    by (simp add: port_calls_Chosen)
next
  fix h
  assume "handles_nonempty (sm_db sm) \<and> chooseAgent (sm_router sm) message options = Chosen agent"
  then show "q_resume (turn_options sm message options agent) = Some h \<longleftrightarrow>
           (\<exists>row. getSession (sm_db sm) (msg_chatKey message)
                     (Some (target_session sm message options)) = Some row \<and>
                  si_sdkSessionId row = h \<and> \<not> startsWith h ''ccb-'')"
    by (simp add: resume_iff_real_handle)
next
  fix h'
  assume a: "handles_nonempty (sm_db sm) \<and> chooseAgent (sm_router sm) message options = Chosen agent"
    and b: "raised (turn_response sm query message options agent) = None \<and>
            last_result (events (turn_response sm query message options agent)) = Some h' \<and>
            h' \<noteq> [] \<and> \<not> startsWith h' ''ccb-'' \<and>
            chooseAgent (sm_router sm) message' options' = Chosen agent' \<and>
            msg_chatKey message' = msg_chatKey message \<and>
            o_sessionName options' = o_sessionName options"
  let ?sm' = "sm_after (sendMessage sm now query message options)"
  have "sm_router ?sm' = sm_router sm"
    using a b by (simp add: completed_turn_records)
  with b have "chooseAgent (sm_router ?sm') message' options' = Chosen agent'" by simp
  then show "port_calls (sendMessage ?sm' now' query' message' options') =
              [(msg_text message', turn_options ?sm' message' options' agent')]"
    by (rule port_calls_Chosen)
  show "q_resume (turn_options ?sm' message' options' agent') = Some h'"
    using a b by (simp add: next_turn_resumes)
next
  show "\<exists>row. getSession (sm_db (snd (createNewSession sm now rnd chatKey agentConfig sessionName)))
             chatKey (Some sessionName) = Some row \<and>
          startsWith (si_sdkSessionId row) ''ccb-''"
    by (rule createNewSession_stores_placeholder)
qed


theorem resume_only_real_handle_witness:
  "handles_nonempty (sm_db fresh_manager) \<and>
   chooseAgent (sm_router fresh_manager) hello no_options = Chosen main_agent \<and>
   getSession (sm_db fresh_manager) (msg_chatKey hello)
     (Some (target_session fresh_manager hello no_options)) = Some placeholder_row \<and>
   port_calls (sendMessage fresh_manager 2000 answering_port hello no_options) =
     [(msg_text hello, turn_options fresh_manager hello no_options main_agent)] \<and>
   q_resume (turn_options fresh_manager hello no_options main_agent) = None \<and>
   q_resume (turn_options (sm_after (sendMessage fresh_manager 2000 answering_port hello no_options))
               hello no_options main_agent) = Some ''sdk-1''"
proof -
  have inv: "handles_nonempty (sm_db fresh_manager)"
    by (simp add: handles_nonempty_def fresh_manager_def placeholder_db_def placeholder_row_def
          empty_db_def)
  have ch: "chooseAgent (sm_router fresh_manager) hello no_options = Chosen main_agent"
    by (simp add: chooseAgent_def no_options_def truthy_def fresh_manager_def routeMessage_def
          drift_router_def drift_config_def hello_def findAgentId_def matchesBinding_def
          getAgent_def)
  have nm: "target_session fresh_manager hello no_options = ''main''"
    by (simp add: target_session_def no_options_def getActiveSessionName_def fresh_manager_def
          placeholder_db_def empty_db_def truthy_def)
  have gs: "getSession (sm_db fresh_manager) (msg_chatKey hello)
              (Some (target_session fresh_manager hello no_options)) = Some placeholder_row"
    unfolding nm
    by (simp add: getSession_def fresh_manager_def placeholder_db_def placeholder_row_def
          empty_db_def session_at_def or_main_def hello_def)
  have ph: "startsWith (si_sdkSessionId placeholder_row) ''ccb-''"
    by (simp add: placeholder_row_def startsWith_def)
  have ok: "raised (turn_response fresh_manager answering_port hello no_options main_agent) = None"
    by (simp add: turn_response_def answering_port_def)
  have res: "last_result (events (turn_response fresh_manager answering_port hello no_options main_agent))
               = Some ''sdk-1''"
    by (simp add: turn_response_def answering_port_def)
  have real: "''sdk-1'' \<noteq> [] \<and> \<not> startsWith ''sdk-1'' ''ccb-''"
    by (simp add: startsWith_def)
  note inst = resume_only_real_handle[where sm = fresh_manager and now = 2000
      and query = answering_port and message = hello and options = no_options
      and agent = main_agent and message' = hello and options' = no_options
      and agent' = main_agent]
  from inst inv ch
  have calls: "port_calls (sendMessage fresh_manager 2000 answering_port hello no_options) =
     [(msg_text hello, turn_options fresh_manager hello no_options main_agent)]"
    by blast
  from inst inv ch
  have iff: "q_resume (turn_options fresh_manager hello no_options main_agent) = Some h \<longleftrightarrow>
           (\<exists>row. getSession (sm_db fresh_manager) (msg_chatKey hello)
                     (Some (target_session fresh_manager hello no_options)) = Some row \<and>
                  si_sdkSessionId row = h \<and> \<not> startsWith h ''ccb-'')" for h
    by blast
  have no: "q_resume (turn_options fresh_manager hello no_options main_agent) \<noteq> Some h" for h
    using iff[of h] gs ph by auto
  have none: "q_resume (turn_options fresh_manager hello no_options main_agent) = None"
  proof (cases "q_resume (turn_options fresh_manager hello no_options main_agent)")
    case None
    then show ?thesis .
  next
    case (Some h)
    with no[of h] show ?thesis by simp
  qed
  from inst inv ch ok res real
  have second: "q_resume (turn_options (sm_after (sendMessage fresh_manager 2000 answering_port hello no_options))
               hello no_options main_agent) = Some ''sdk-1''"
    by blast
  from inv ch gs calls none second show ?thesis by blast
qed

end
